theory Spec2Isabelle
  imports Main "HOL-Library.Word" "HOL-Library.Monad_Syntax" "HOL-Library.Sublist"
begin

section \<open>The connection context of the polypaudio client library\<close>

text \<open>
  A shallow embedding of \<^verbatim>\<open>polyp/polyplib-context.c\<close>. The file is single-threaded
  and callback-driven; every function becomes a function on an explicit \<open>world\<close>:
  the one context, the stream and operation objects it points to, and a trace of
  the calls that leave the file (user callbacks, releases of collaborators,
  messages handed to the transport). A failed \<^verbatim>\<open>assert\<close> aborts the process:
  the functions return \<open>None\<close> there.
\<close>

subsection \<open>Constants of the absent headers\<close>

type_synonym uint32_t = "32 word"
type_synonym uint8_t = "8 word"

text \<open>
  The enumerators \<^verbatim>\<open>PA_COMMAND_*\<close> and \<^verbatim>\<open>PA_ERROR_*\<close> and the macros
  \<^verbatim>\<open>DEFAULT_PORT\<close>, \<^verbatim>\<open>DEFAULT_SERVER\<close> and \<^verbatim>\<open>DEFAULT_TIMEOUT\<close> are declared in
  headers that are not among the sources (\<^verbatim>\<open>native-common.h\<close>,
  \<^verbatim>\<open>polyplib-def.h\<close>, \<^verbatim>\<open>polyplib-internal.h\<close>). Their values are parameters of
  the model: every function that names one takes the record \<open>K\<close>.
\<close>

record native_common =
  PA_COMMAND_ERROR :: uint32_t
  PA_COMMAND_TIMEOUT :: uint32_t
  PA_COMMAND_REPLY :: uint32_t
  PA_COMMAND_EXIT :: uint32_t
  PA_COMMAND_AUTH :: uint32_t
  PA_COMMAND_SET_NAME :: uint32_t
  PA_ERROR_OK :: uint32_t
  PA_ERROR_CONNECTIONREFUSED :: uint32_t
  PA_ERROR_PROTOCOL :: uint32_t
  PA_ERROR_TIMEOUT :: uint32_t
  PA_ERROR_AUTHKEY :: uint32_t
  PA_ERROR_CONNECTIONTERMINATED :: uint32_t
  PA_ERROR_INVALIDSERVER :: uint32_t
  DEFAULT_PORT :: string
  DEFAULT_SERVER :: string
  DEFAULT_TIMEOUT :: nat

subsection \<open>Data\<close>

datatype pa_context_state =
    PA_CONTEXT_UNCONNECTED
  | PA_CONTEXT_CONNECTING
  | PA_CONTEXT_AUTHORIZING
  | PA_CONTEXT_SETTING_NAME
  | PA_CONTEXT_READY
  | PA_CONTEXT_FAILED
  | PA_CONTEXT_TERMINATED

text \<open>
  Modelled from the spec: \<^verbatim>\<open>enum pa_stream_state\<close> is declared in the absent
  \<^verbatim>\<open>polyplib-def.h\<close>. The source names its two terminal enumerators; the spec
  calls every other stream live, and those states are one constructor here.
\<close>

datatype pa_stream_state = PA_STREAM_LIVE | PA_STREAM_FAILED | PA_STREAM_TERMINATED

text \<open>
  Modelled from the spec: the tag-length-value payload (\<^verbatim>\<open>tagstruct.c\<close>, absent)
  is a sequence of typed items; a reader consumes it from the front.
\<close>

datatype tagstruct_item =
    TAG_U32 uint32_t
  | TAG_STRING string
  | TAG_ARBITRARY "uint8_t list"

type_synonym pa_tagstruct = "tagstruct_item list"

text \<open>The handlers this file registers for replies, and the user data they get.\<close>

datatype reply_callback =
    Setup_complete_callback
  | Simple_ack_callback
  | Internal_callback nat

datatype userdata = Userdata_context | Userdata_operation nat

record reply_registration =
  rr_tag :: uint32_t
  rr_timeout :: nat
  rr_callback :: reply_callback
  rr_userdata :: userdata

text \<open>
  Modelled from the spec: the Reply Dispatcher (\<^verbatim>\<open>pdispatch.c\<close>, absent) holds
  the pending reply registrations and at most one drain callback, here the
  operation it was armed for.
\<close>

record pa_pdispatch =
  pd_replies :: "reply_registration list"
  pd_drain_callback :: "nat option"

text \<open>
  Modelled from the spec: the Packet Transport (\<^verbatim>\<open>pstream.c\<close>, absent) holds
  the messages not yet written to the socket, at most one drain callback, and
  the three event callbacks of its owner (set or not).
\<close>

record pa_pstream =
  ps_send_queue :: "pa_tagstruct list"
  ps_drain_callback :: "nat option"
  ps_die_callback :: bool
  ps_recieve_packet_callback :: bool
  ps_recieve_memblock_callback :: bool

type_synonym sockaddr = "uint8_t list"

datatype socket_address = Address_unix string | Address_sockaddr sockaddr

record pa_socket_client =
  sc_address :: socket_address
  sc_callback :: bool

record pa_memchunk =
  mc_memblock_data :: "uint8_t list"
  mc_index :: nat
  mc_length :: nat

text \<open>
  The fields of \<^verbatim>\<open>struct pa_stream\<close> and \<^verbatim>\<open>struct pa_operation\<close> that this file
  reads or writes; a callback field is \<open>True\<close> when the pointer is not
  \<^verbatim>\<open>NULL\<close>. The \<^verbatim>\<open>next\<close> pointers are the order of the lists in the context.
\<close>

record pa_stream =
  s_state :: pa_stream_state
  s_read_callback :: bool

record pa_operation =
  o_ref :: int
  o_callback :: bool
  o_done :: bool

record pa_context =
  c_ref :: int
  c_name :: string
  c_client :: "pa_socket_client option"
  c_pstream :: "pa_pstream option"
  c_pdispatch :: "pa_pdispatch option"
  c_playback_streams :: "nat option list"
  c_record_streams :: "nat option list"
  c_streams :: "nat list"
  c_operations :: "nat list"
  c_error :: uint32_t
  c_state :: pa_context_state
  c_ctag :: uint32_t
  c_state_callback :: bool
  c_subscribe_callback :: bool
  c_auth_cookie :: "uint8_t list"

text \<open>
  The trace. A user callback is an event carrying what it is called with; the
  context is recorded as the callback finds it. User callbacks do not call back
  into the library in this model.
\<close>

datatype event =
    EV_state_callback pa_context
  | EV_read_callback nat "uint8_t list" nat nat
  | EV_simple_callback nat pa_context bool
  | EV_drain_callback nat pa_context
  | EV_stream_set_state nat pa_stream_state
  | EV_operation_cancel nat
  | EV_operation_done nat
  | EV_pdispatch_unref
  | EV_pstream_close
  | EV_pstream_unref
  | EV_socket_client_unref
  | EV_pstream_send pa_tagstruct
  | EV_dynarray_free
  | EV_memblock_stat_unref

record world =
  w_context :: pa_context
  w_streams :: "nat \<Rightarrow> pa_stream"
  w_operations :: "nat \<Rightarrow> pa_operation"
  w_operation_alloc :: nat
  w_trace :: "event list"
  w_freed :: bool

definition emit :: "event \<Rightarrow> world \<Rightarrow> world" where
  "emit e w = w\<lparr>w_trace := w_trace w @ [e]\<rparr>"

subsection \<open>Collaborators\<close>

text \<open>
  Modelled from the spec: \<^verbatim>\<open>pa_stream_set_state\<close> (\<^verbatim>\<open>polyplib-stream.c\<close>,
  absent) moves a stream to the given state; the context's list holds its live
  streams, so a stream that enters a terminal state leaves the list.
\<close>

definition pa_stream_set_state :: "nat \<Rightarrow> pa_stream_state \<Rightarrow> world \<Rightarrow> world" where
  "pa_stream_set_state s st w =
     (let w1 = emit (EV_stream_set_state s st)
                 (w\<lparr>w_streams := (w_streams w)(s := (w_streams w s)\<lparr>s_state := st\<rparr>)\<rparr>)
      in if st = PA_STREAM_FAILED \<or> st = PA_STREAM_TERMINATED
         then w1\<lparr>w_context := (w_context w1)\<lparr>c_streams := remove1 s (c_streams (w_context w1))\<rparr>\<rparr>
         else w1)"

text \<open>
  Modelled from the spec: \<^verbatim>\<open>pa_operation_cancel\<close> (\<^verbatim>\<open>polyplib-operation.c\<close>,
  absent) finishes a pending operation without invoking its user callback and
  unlinks it.
\<close>

definition pa_operation_cancel :: "nat \<Rightarrow> world \<Rightarrow> world" where
  "pa_operation_cancel o' w =
     (let w1 = emit (EV_operation_cancel o')
                 (w\<lparr>w_operations := (w_operations w)(o' := (w_operations w o')\<lparr>o_done := True\<rparr>)\<rparr>)
      in w1\<lparr>w_context := (w_context w1)\<lparr>c_operations := remove1 o' (c_operations (w_context w1))\<rparr>\<rparr>)"

text \<open>
  Modelled from the spec: \<^verbatim>\<open>pa_operation_done\<close> (absent) marks the operation
  finished and unlinks it.
\<close>

definition pa_operation_done :: "nat \<Rightarrow> world \<Rightarrow> world" where
  "pa_operation_done o' w =
     (let w1 = emit (EV_operation_done o')
                 (w\<lparr>w_operations := (w_operations w)(o' := (w_operations w o')\<lparr>o_done := True\<rparr>)\<rparr>)
      in w1\<lparr>w_context := (w_context w1)\<lparr>c_operations := remove1 o' (c_operations (w_context w1))\<rparr>\<rparr>)"

text \<open>
  Modelled from the spec: an operation is a reference-counted handle;
  \<^verbatim>\<open>pa_operation_ref\<close> and \<^verbatim>\<open>pa_operation_unref\<close> (absent) count its references.
  The object stays in the model's store when the count drops to zero.
\<close>

definition pa_operation_ref :: "nat \<Rightarrow> world \<Rightarrow> world" where
  "pa_operation_ref o' w =
     w\<lparr>w_operations := (w_operations w)(o' := (w_operations w o')\<lparr>o_ref := o_ref (w_operations w o') + 1\<rparr>)\<rparr>"

definition pa_operation_unref :: "nat \<Rightarrow> world \<Rightarrow> world" where
  "pa_operation_unref o' w =
     w\<lparr>w_operations := (w_operations w)(o' := (w_operations w o')\<lparr>o_ref := o_ref (w_operations w o') - 1\<rparr>)\<rparr>"

text \<open>
  Modelled from the spec: \<^verbatim>\<open>pa_operation_new\<close> (absent) allocates an operation
  for the context, pending, and links it into the context's operation list; the
  new object has the one reference of its creator and no callback yet.
\<close>

definition pa_operation_new :: "world \<Rightarrow> nat \<times> world" where
  "pa_operation_new w =
     (let o' = w_operation_alloc w
      in (o', w\<lparr>w_operations := (w_operations w)(o' := \<lparr>o_ref = 1, o_callback = False, o_done = False\<rparr>),
               w_operation_alloc := Suc o',
               w_context := (w_context w)\<lparr>c_operations := o' # c_operations (w_context w)\<rparr>\<rparr>))"

text \<open>
  Modelled from the spec: \<^verbatim>\<open>pa_dynarray_get\<close> (\<^verbatim>\<open>dynarray.c\<close>, absent) reads a
  slot of a channel-indexed array; a slot beyond the end is empty.
\<close>

definition pa_dynarray_get :: "nat option list \<Rightarrow> nat \<Rightarrow> nat option" where
  "pa_dynarray_get a i = (if i < length a then a ! i else None)"

text \<open>
  Modelled from the spec: the has-pending predicates of the dispatcher (pending
  replies) and of the transport (unsent buffered messages).
\<close>

definition pa_pdispatch_is_pending :: "pa_pdispatch \<Rightarrow> bool" where
  "pa_pdispatch_is_pending pd = (pd_replies pd \<noteq> [])"

definition pa_pstream_is_pending :: "pa_pstream \<Rightarrow> bool" where
  "pa_pstream_is_pending p = (ps_send_queue p \<noteq> [])"

text \<open>
  Modelled from the spec: reading a 32-bit number from a payload fails when the
  payload is truncated or its next item is not a number; \<^verbatim>\<open>pa_tagstruct_eof\<close>
  holds when nothing is left.
\<close>

fun pa_tagstruct_getu32 :: "pa_tagstruct \<Rightarrow> (uint32_t \<times> pa_tagstruct) option" where
  "pa_tagstruct_getu32 (TAG_U32 v # t) = Some (v, t)"
| "pa_tagstruct_getu32 _ = None"

definition pa_tagstruct_eof :: "pa_tagstruct \<Rightarrow> bool" where
  "pa_tagstruct_eof t = (t = [])"

definition pa_tagstruct_putu32 :: "pa_tagstruct \<Rightarrow> uint32_t \<Rightarrow> pa_tagstruct" where
  "pa_tagstruct_putu32 t v = t @ [TAG_U32 v]"

definition pa_tagstruct_puts :: "pa_tagstruct \<Rightarrow> string \<Rightarrow> pa_tagstruct" where
  "pa_tagstruct_puts t s = t @ [TAG_STRING s]"

definition pa_tagstruct_put_arbitrary :: "pa_tagstruct \<Rightarrow> uint8_t list \<Rightarrow> pa_tagstruct" where
  "pa_tagstruct_put_arbitrary t p = t @ [TAG_ARBITRARY p]"

subsection \<open>Creation, reference counting, destruction\<close>

definition pa_context_new :: "native_common \<Rightarrow> string \<Rightarrow> pa_context" where
  "pa_context_new K name =
     \<lparr>c_ref = 1, c_name = name, c_client = None, c_pstream = None, c_pdispatch = None,
      c_playback_streams = [], c_record_streams = [], c_streams = [], c_operations = [],
      c_error = PA_ERROR_OK K, c_state = PA_CONTEXT_UNCONNECTED, c_ctag = 0,
      c_state_callback = False, c_subscribe_callback = False, c_auth_cookie = []\<rparr>"

text \<open>\<^verbatim>\<open>while (c->operations) pa_operation_cancel(c->operations);\<close>\<close>

function context_free_operations :: "world \<Rightarrow> world" where
  "context_free_operations w =
     (case c_operations (w_context w) of
        [] \<Rightarrow> w
      | o' # _ \<Rightarrow> context_free_operations (pa_operation_cancel o' w))"
  by pat_completeness auto
termination
  by (relation "measure (\<lambda>w. length (c_operations (w_context w)))")
     (auto simp: pa_operation_cancel_def emit_def Let_def)

declare context_free_operations.simps [simp del]

text \<open>\<^verbatim>\<open>while (c->streams) pa_stream_set_state(c->streams, PA_STREAM_TERMINATED);\<close>\<close>

function context_free_streams :: "world \<Rightarrow> world" where
  "context_free_streams w =
     (case c_streams (w_context w) of
        [] \<Rightarrow> w
      | s # _ \<Rightarrow> context_free_streams (pa_stream_set_state s PA_STREAM_TERMINATED w))"
  by pat_completeness auto
termination
  by (relation "measure (\<lambda>w. length (c_streams (w_context w)))")
     (auto simp: pa_stream_set_state_def emit_def Let_def)

declare context_free_streams.simps [simp del]

definition release_client :: "world \<Rightarrow> world" where
  "release_client w =
     (case c_client (w_context w) of
        None \<Rightarrow> w
      | Some _ \<Rightarrow> emit EV_socket_client_unref w)"

definition release_pdispatch :: "world \<Rightarrow> world" where
  "release_pdispatch w =
     (case c_pdispatch (w_context w) of
        None \<Rightarrow> w
      | Some _ \<Rightarrow> emit EV_pdispatch_unref w)"

definition release_pstream :: "world \<Rightarrow> world" where
  "release_pstream w =
     (case c_pstream (w_context w) of
        None \<Rightarrow> w
      | Some _ \<Rightarrow> emit EV_pstream_unref (emit EV_pstream_close w))"

definition context_free :: "world \<Rightarrow> world" where
  "context_free w =
     (let w1 = context_free_operations w;
          w2 = context_free_streams w1;
          w3 = release_client w2;
          w4 = release_pdispatch w3;
          w5 = release_pstream w4;
          w6 = emit EV_dynarray_free w5;
          w7 = emit EV_dynarray_free w6;
          w8 = emit EV_memblock_stat_unref w7
      in w8\<lparr>w_freed := True\<rparr>)"

definition pa_context_ref :: "world \<Rightarrow> world option" where
  "pa_context_ref w =
     (if c_ref (w_context w) \<ge> 1
      then Some (w\<lparr>w_context := (w_context w)\<lparr>c_ref := c_ref (w_context w) + 1\<rparr>\<rparr>)
      else None)"

definition pa_context_unref :: "world \<Rightarrow> world option" where
  "pa_context_unref w =
     (if c_ref (w_context w) \<ge> 1
      then (let w1 = w\<lparr>w_context := (w_context w)\<lparr>c_ref := c_ref (w_context w) - 1\<rparr>\<rparr>
            in if c_ref (w_context w1) = 0 then Some (context_free w1) else Some w1)
      else None)"

subsection \<open>State changes\<close>

text \<open>
  The loop over the streams in \<^verbatim>\<open>pa_context_set_state\<close>. It reads \<^verbatim>\<open>s->next\<close>
  before it changes \<^verbatim>\<open>s\<close>, and the change unlinks \<^verbatim>\<open>s\<close> only: it visits the
  nodes that were linked when it started, in list order. The references it takes
  on \<^verbatim>\<open>s\<close> and \<^verbatim>\<open>n\<close> keep the nodes' memory alive across the call; every
  stream object stays in the model's store, so they have no counterpart here.
\<close>

fun set_state_streams :: "nat list \<Rightarrow> pa_stream_state \<Rightarrow> world \<Rightarrow> world" where
  "set_state_streams [] st w = w"
| "set_state_streams (s # n) st w = set_state_streams n st (pa_stream_set_state s st w)"

definition set_state_teardown :: "pa_context_state \<Rightarrow> world \<Rightarrow> world" where
  "set_state_teardown st w =
     (let w1 = set_state_streams (c_streams (w_context w))
                 (if st = PA_CONTEXT_FAILED then PA_STREAM_FAILED else PA_STREAM_TERMINATED) w;
          w2 = release_pdispatch w1;
          w3 = w2\<lparr>w_context := (w_context w2)\<lparr>c_pdispatch := None\<rparr>\<rparr>;
          w4 = release_pstream w3;
          w5 = w4\<lparr>w_context := (w_context w4)\<lparr>c_pstream := None\<rparr>\<rparr>;
          w6 = release_client w5
      in w6\<lparr>w_context := (w_context w6)\<lparr>c_client := None\<rparr>\<rparr>)"

definition state_callback :: "world \<Rightarrow> world" where
  "state_callback w =
     (if c_state_callback (w_context w) then emit (EV_state_callback (w_context w)) w else w)"

definition pa_context_set_state :: "world \<Rightarrow> pa_context_state \<Rightarrow> world option" where
  "pa_context_set_state w st =
     (if c_state (w_context w) = st then Some w
      else do {
        w1 \<leftarrow> pa_context_ref w;
        let w2 = (if st = PA_CONTEXT_FAILED \<or> st = PA_CONTEXT_TERMINATED
                  then set_state_teardown st w1 else w1);
        let w3 = w2\<lparr>w_context := (w_context w2)\<lparr>c_state := st\<rparr>\<rparr>;
        let w4 = state_callback w3;
        pa_context_unref w4
      })"

definition pa_context_fail :: "world \<Rightarrow> uint32_t \<Rightarrow> world option" where
  "pa_context_fail w err =
     pa_context_set_state (w\<lparr>w_context := (w_context w)\<lparr>c_error := err\<rparr>\<rparr>) PA_CONTEXT_FAILED"

definition pa_context_disconnect :: "world \<Rightarrow> world option" where
  "pa_context_disconnect w = pa_context_set_state w PA_CONTEXT_TERMINATED"

definition pa_context_get_state :: "world \<Rightarrow> pa_context_state option" where
  "pa_context_get_state w = (if c_ref (w_context w) \<ge> 1 then Some (c_state (w_context w)) else None)"

definition pa_context_errno :: "world \<Rightarrow> uint32_t option" where
  "pa_context_errno w = (if c_ref (w_context w) \<ge> 1 then Some (c_error (w_context w)) else None)"

subsection \<open>Events of the transport\<close>

text \<open>
  The transport reports that it died and that a memory chunk arrived. Its third
  event, a packet, goes to \<^verbatim>\<open>pa_pdispatch_run\<close> of the absent dispatcher, which
  calls one of the reply handlers below or makes \<^verbatim>\<open>pstream_packet_callback\<close> fail
  the context with ProtocolError.
\<close>

definition pstream_die_callback :: "native_common \<Rightarrow> world \<Rightarrow> world option" where
  "pstream_die_callback K w = pa_context_fail w (PA_ERROR_CONNECTIONTERMINATED K)"

definition pstream_memblock_callback ::
  "world \<Rightarrow> uint32_t \<Rightarrow> int \<Rightarrow> pa_memchunk \<Rightarrow> world option" where
  "pstream_memblock_callback w channel delta chunk = do {
     w1 \<leftarrow> pa_context_ref w;
     let w2 = (case pa_dynarray_get (c_record_streams (w_context w1)) (unat channel) of
                 None \<Rightarrow> w1
               | Some s \<Rightarrow>
                   if s_read_callback (w_streams w1 s)
                   then emit (EV_read_callback s (mc_memblock_data chunk) (mc_index chunk)
                                (mc_length chunk)) w1
                   else w1);
     pa_context_unref w2
   }"

subsection \<open>Replies\<close>

text \<open>
  \<^verbatim>\<open>pa_context_handle_error\<close> returns its \<^verbatim>\<open>int\<close> result with the new world. The
  number read by \<^verbatim>\<open>pa_tagstruct_getu32\<close> is stored straight into \<^verbatim>\<open>c->error\<close>.
\<close>

definition pa_context_handle_error ::
  "native_common \<Rightarrow> world \<Rightarrow> uint32_t \<Rightarrow> pa_tagstruct \<Rightarrow> (int \<times> world) option" where
  "pa_context_handle_error K w command t =
     (if command = PA_COMMAND_ERROR K then
        (case pa_tagstruct_getu32 t of
           None \<Rightarrow> do { w1 \<leftarrow> pa_context_fail w (PA_ERROR_PROTOCOL K); Some (- 1, w1) }
         | Some (v, _) \<Rightarrow> Some (0, w\<lparr>w_context := (w_context w)\<lparr>c_error := v\<rparr>\<rparr>))
      else if command = PA_COMMAND_TIMEOUT K then
        Some (0, w\<lparr>w_context := (w_context w)\<lparr>c_error := PA_ERROR_TIMEOUT K\<rparr>\<rparr>)
      else do { w1 \<leftarrow> pa_context_fail w (PA_ERROR_PROTOCOL K); Some (- 1, w1) })"

text \<open>
  Modelled from the spec: \<^verbatim>\<open>pa_pstream_send_tagstruct\<close> hands a serialized
  message to the transport, which buffers it until it is written;
  \<^verbatim>\<open>pa_pdispatch_register_reply\<close> adds a pending reply registration. Both
  dereference their first argument: without a transport or a dispatcher the
  process aborts.
\<close>

definition pa_pstream_send_tagstruct :: "world \<Rightarrow> pa_tagstruct \<Rightarrow> world option" where
  "pa_pstream_send_tagstruct w t =
     (case c_pstream (w_context w) of
        None \<Rightarrow> None
      | Some p \<Rightarrow>
          Some (emit (EV_pstream_send t)
                  (w\<lparr>w_context := (w_context w)
                       \<lparr>c_pstream := Some (p\<lparr>ps_send_queue := ps_send_queue p @ [t]\<rparr>)\<rparr>\<rparr>)))"

definition pa_pdispatch_register_reply ::
  "world \<Rightarrow> uint32_t \<Rightarrow> nat \<Rightarrow> reply_callback \<Rightarrow> userdata \<Rightarrow> world option" where
  "pa_pdispatch_register_reply w tag timeout cb ud =
     (case c_pdispatch (w_context w) of
        None \<Rightarrow> None
      | Some pd \<Rightarrow>
          Some (w\<lparr>w_context := (w_context w)
                  \<lparr>c_pdispatch := Some (pd\<lparr>pd_replies := pd_replies pd @
                      [\<lparr>rr_tag = tag, rr_timeout = timeout, rr_callback = cb, rr_userdata = ud\<rparr>]\<rparr>)\<rparr>\<rparr>))"

text \<open>\<^verbatim>\<open>tag = c->ctag++\<close>: the old value is the tag, the counter wraps at \<open>2 ^ 32\<close>.\<close>

definition next_ctag :: "world \<Rightarrow> uint32_t \<times> world" where
  "next_ctag w = (c_ctag (w_context w), w\<lparr>w_context := (w_context w)\<lparr>c_ctag := c_ctag (w_context w) + 1\<rparr>\<rparr>)"

definition setup_complete_callback ::
  "native_common \<Rightarrow> world \<Rightarrow> uint32_t \<Rightarrow> uint32_t \<Rightarrow> pa_tagstruct \<Rightarrow> world option" where
  "setup_complete_callback K w command tag t =
     (if c_state (w_context w) = PA_CONTEXT_AUTHORIZING \<or> c_state (w_context w) = PA_CONTEXT_SETTING_NAME
      then do {
        w1 \<leftarrow> pa_context_ref w;
        w2 \<leftarrow> (if command \<noteq> PA_COMMAND_REPLY K then do {
                  (r, w') \<leftarrow> pa_context_handle_error K w1 command t;
                  if r < 0 then pa_context_fail w' (PA_ERROR_PROTOCOL K) else Some w'
                }
                else (case c_state (w_context w1) of
                  PA_CONTEXT_AUTHORIZING \<Rightarrow> do {
                    let t' = pa_tagstruct_putu32 [] (PA_COMMAND_SET_NAME K);
                    let (tag', w') = next_ctag w1;
                    let t' = pa_tagstruct_putu32 t' tag';
                    let t' = pa_tagstruct_puts t' (c_name (w_context w'));
                    w' \<leftarrow> pa_pstream_send_tagstruct w' t';
                    w' \<leftarrow> pa_pdispatch_register_reply w' tag' (DEFAULT_TIMEOUT K)
                            Setup_complete_callback Userdata_context;
                    pa_context_set_state w' PA_CONTEXT_SETTING_NAME
                  }
                | PA_CONTEXT_SETTING_NAME \<Rightarrow> pa_context_set_state w1 PA_CONTEXT_READY
                | _ \<Rightarrow> None));
        pa_context_unref w2
      }
      else None)"

text \<open>
  \<^verbatim>\<open>on_connection\<close>: \<open>io\<close> tells whether the connector produced a channel. The
  new transport gets its three callbacks; the new dispatcher has no
  registrations.
\<close>

definition pa_pstream_new :: pa_pstream where
  "pa_pstream_new =
     \<lparr>ps_send_queue = [], ps_drain_callback = None, ps_die_callback = False,
      ps_recieve_packet_callback = False, ps_recieve_memblock_callback = False\<rparr>"

definition pa_pdispatch_new :: pa_pdispatch where
  "pa_pdispatch_new = \<lparr>pd_replies = [], pd_drain_callback = None\<rparr>"

definition on_connection :: "native_common \<Rightarrow> world \<Rightarrow> bool \<Rightarrow> world option" where
  "on_connection K w io =
     (if c_state (w_context w) = PA_CONTEXT_CONNECTING
      then do {
        w1 \<leftarrow> pa_context_ref w;
        let w2 = emit EV_socket_client_unref w1;
        let w3 = w2\<lparr>w_context := (w_context w2)\<lparr>c_client := None\<rparr>\<rparr>;
        w4 \<leftarrow> (if \<not> io then pa_context_fail w3 (PA_ERROR_CONNECTIONREFUSED K)
                else if c_pstream (w_context w3) \<noteq> None then None
                else do {
                  let p = pa_pstream_new\<lparr>ps_die_callback := True, ps_recieve_packet_callback := True,
                            ps_recieve_memblock_callback := True\<rparr>;
                  let w' = w3\<lparr>w_context := (w_context w3)\<lparr>c_pstream := Some p\<rparr>\<rparr>;
                  if c_pdispatch (w_context w') \<noteq> None then None
                  else do {
                    let w' = w'\<lparr>w_context := (w_context w')\<lparr>c_pdispatch := Some pa_pdispatch_new\<rparr>\<rparr>;
                    let t = pa_tagstruct_putu32 [] (PA_COMMAND_AUTH K);
                    let (tag, w') = next_ctag w';
                    let t = pa_tagstruct_putu32 t tag;
                    let t = pa_tagstruct_put_arbitrary t (c_auth_cookie (w_context w'));
                    w' \<leftarrow> pa_pstream_send_tagstruct w' t;
                    w' \<leftarrow> pa_pdispatch_register_reply w' tag (DEFAULT_TIMEOUT K)
                            Setup_complete_callback Userdata_context;
                    pa_context_set_state w' PA_CONTEXT_AUTHORIZING
                  }
                });
        pa_context_unref w4
      }
      else None)"

subsection \<open>Connecting\<close>

text \<open>
  What \<^verbatim>\<open>pa_context_connect\<close> asks of the operating system and of the absent
  \<^verbatim>\<open>authkey.c\<close> and \<^verbatim>\<open>socket-client.c\<close> is an input of the model: the cookie
  read from the home directory (or the failure to read it), the environment
  variable naming the default server, the resolver, and whether a connector can
  be constructed for an address.
\<close>

record environment =
  pa_authkey_load_from_home :: "uint8_t list option"
  getenv_ENV_DEFAULT_SERVER :: "string option"
  getaddrinfo :: "string \<Rightarrow> string \<Rightarrow> sockaddr option"
  pa_socket_client_new_unix :: "string \<Rightarrow> bool"
  pa_socket_client_new_sockaddr :: "sockaddr \<Rightarrow> bool"

text \<open>
  Modelled from the spec: a connector (\<^verbatim>\<open>socket-client.c\<close>, absent) is constructed
  for an address and has no completion callback until
  \<^verbatim>\<open>pa_socket_client_set_callback\<close> gives it one.
\<close>

definition pa_socket_client_new :: "socket_address \<Rightarrow> pa_socket_client" where
  "pa_socket_client_new a = \<lparr>sc_address = a, sc_callback = False\<rparr>"

definition pa_socket_client_set_callback :: "world \<Rightarrow> world" where
  "pa_socket_client_set_callback w =
     w\<lparr>w_context := (w_context w)
         \<lparr>c_client := map_option (\<lambda>cl. cl\<lparr>sc_callback := True\<rparr>) (c_client (w_context w))\<rparr>\<rparr>"

text \<open>\<^verbatim>\<open>strrchr\<close>: the suffix that starts at the last occurrence of the character.\<close>

fun strrchr :: "string \<Rightarrow> char \<Rightarrow> string option" where
  "strrchr [] ch = None"
| "strrchr (x # xs) ch =
     (case strrchr xs ch of
        Some r \<Rightarrow> Some r
      | None \<Rightarrow> if x = ch then Some (x # xs) else None)"

text \<open>
  \<^verbatim>\<open>resolve_server\<close>: the node handed to \<^verbatim>\<open>getaddrinfo\<close> is \<^verbatim>\<open>server\<close> itself, the
  service is the text after the last colon or \<^verbatim>\<open>DEFAULT_PORT\<close>.
\<close>

definition resolve_server :: "native_common \<Rightarrow> environment \<Rightarrow> string \<Rightarrow> sockaddr option" where
  "resolve_server K env server =
     (let port = (case strrchr server CHR '':'' of
                    Some p \<Rightarrow> tl p
                  | None \<Rightarrow> DEFAULT_PORT K)
      in getaddrinfo env server port)"

definition pa_context_connect ::
  "native_common \<Rightarrow> environment \<Rightarrow> world \<Rightarrow> string option \<Rightarrow> (int \<times> world) option" where
  "pa_context_connect K env w server =
     (if c_ref (w_context w) \<ge> 1 \<and> c_state (w_context w) = PA_CONTEXT_UNCONNECTED
      then do {
        w1 \<leftarrow> pa_context_ref w;
        (r, w2) \<leftarrow>
          (case pa_authkey_load_from_home env of
             None \<Rightarrow> do { w' \<leftarrow> pa_context_fail w1 (PA_ERROR_AUTHKEY K); Some (- 1, w') }
           | Some cookie \<Rightarrow> do {
               let w' = w1\<lparr>w_context := (w_context w1)\<lparr>c_auth_cookie := cookie\<rparr>\<rparr>;
               let server = (case server of
                               Some s \<Rightarrow> s
                             | None \<Rightarrow> (case getenv_ENV_DEFAULT_SERVER env of
                                          Some s \<Rightarrow> s
                                        | None \<Rightarrow> DEFAULT_SERVER K));
               if c_client (w_context w') \<noteq> None then None
               else if (case server of [] \<Rightarrow> False | x # _ \<Rightarrow> x = CHR ''/'') then
                 (if \<not> pa_socket_client_new_unix env server
                  then do { w' \<leftarrow> pa_context_fail w' (PA_ERROR_CONNECTIONREFUSED K); Some (- 1, w') }
                  else do {
                    let cl = pa_socket_client_new (Address_unix server);
                    let w' = w'\<lparr>w_context := (w_context w')\<lparr>c_client := Some cl\<rparr>\<rparr>;
                    let w' = pa_socket_client_set_callback w';
                    w' \<leftarrow> pa_context_set_state w' PA_CONTEXT_CONNECTING;
                    Some (0, w')
                  })
               else
                 (case resolve_server K env server of
                    None \<Rightarrow> do { w' \<leftarrow> pa_context_fail w' (PA_ERROR_INVALIDSERVER K); Some (- 1, w') }
                  | Some sa \<Rightarrow>
                      if \<not> pa_socket_client_new_sockaddr env sa
                      then do { w' \<leftarrow> pa_context_fail w' (PA_ERROR_CONNECTIONREFUSED K); Some (- 1, w') }
                      else do {
                        let cl = pa_socket_client_new (Address_sockaddr sa);
                        let w' = w'\<lparr>w_context := (w_context w')\<lparr>c_client := Some cl\<rparr>\<rparr>;
                        let w' = pa_socket_client_set_callback w';
                        w' \<leftarrow> pa_context_set_state w' PA_CONTEXT_CONNECTING;
                        Some (0, w')
                      })
             });
        w3 \<leftarrow> pa_context_unref w2;
        Some (r, w3)
      }
      else None)"

subsection \<open>Pending work and drain\<close>

definition pa_context_is_pending :: "world \<Rightarrow> int option" where
  "pa_context_is_pending w =
     (if c_ref (w_context w) \<ge> 1 then
        (if c_state (w_context w) \<noteq> PA_CONTEXT_READY then Some 0
         else (case (c_pstream (w_context w), c_pdispatch (w_context w)) of
                 (Some p, Some pd) \<Rightarrow>
                   Some (if pa_pstream_is_pending p \<or> pa_pdispatch_is_pending pd then 1 else 0)
               | _ \<Rightarrow> None))
      else None)"

text \<open>
  Modelled from the spec: \<^verbatim>\<open>pa_pstream_set_drain_callback\<close> and
  \<^verbatim>\<open>pa_pdispatch_set_drain_callback\<close> (absent) arm or clear the one drained
  notification of their component.
\<close>

definition pa_pstream_set_drain_callback :: "pa_pstream \<Rightarrow> nat option \<Rightarrow> pa_pstream" where
  "pa_pstream_set_drain_callback p cb = p\<lparr>ps_drain_callback := cb\<rparr>"

definition pa_pdispatch_set_drain_callback :: "pa_pdispatch \<Rightarrow> nat option \<Rightarrow> pa_pdispatch" where
  "pa_pdispatch_set_drain_callback pd cb = pd\<lparr>pd_drain_callback := cb\<rparr>"

definition set_dispatch_callbacks :: "nat \<Rightarrow> world \<Rightarrow> world option" where
  "set_dispatch_callbacks o' w =
     (if c_ref (w_context w) \<ge> 1 \<and> o_ref (w_operations w o') \<ge> 1
         \<and> c_state (w_context w) = PA_CONTEXT_READY
      then (case (c_pstream (w_context w), c_pdispatch (w_context w)) of
              (Some p, Some pd) \<Rightarrow>
                (let p1 = pa_pstream_set_drain_callback p None;
                     pd1 = pa_pdispatch_set_drain_callback pd None;
                     pd2 = (if pa_pdispatch_is_pending pd1
                            then pa_pdispatch_set_drain_callback pd1 (Some o') else pd1);
                     p2 = (if pa_pstream_is_pending p1
                           then pa_pstream_set_drain_callback p1 (Some o') else p1);
                     done = (\<not> pa_pdispatch_is_pending pd1 \<and> \<not> pa_pstream_is_pending p1);
                     w1 = w\<lparr>w_context := (w_context w)\<lparr>c_pstream := Some p2, c_pdispatch := Some pd2\<rparr>\<rparr>;
                     w2 = (if \<not> done then pa_operation_ref o' w1
                           else pa_operation_done o'
                                  (if o_callback (w_operations w1 o')
                                   then emit (EV_drain_callback o' (w_context w1)) w1 else w1))
                 in Some (pa_operation_unref o' w2))
            | _ \<Rightarrow> None)
      else None)"

definition pdispatch_drain_callback :: "nat \<Rightarrow> world \<Rightarrow> world option" where
  "pdispatch_drain_callback userdata w = set_dispatch_callbacks userdata w"

definition pstream_drain_callback :: "nat \<Rightarrow> world \<Rightarrow> world option" where
  "pstream_drain_callback userdata w = set_dispatch_callbacks userdata w"

definition pa_context_drain :: "world \<Rightarrow> bool \<Rightarrow> (nat option \<times> world) option" where
  "pa_context_drain w cb =
     (if c_ref (w_context w) \<ge> 1 \<and> c_state (w_context w) = PA_CONTEXT_READY
      then do {
        pending \<leftarrow> pa_context_is_pending w;
        if pending = 0 then Some (None, w)
        else do {
          let (o', w1) = pa_operation_new w;
          let w2 = w1\<lparr>w_operations := (w_operations w1)(o' := (w_operations w1 o')\<lparr>o_callback := cb\<rparr>)\<rparr>;
          w3 \<leftarrow> set_dispatch_callbacks o' (pa_operation_ref o' w2);
          Some (Some o', w3)
        }
      }
      else None)"

subsection \<open>Simple commands\<close>

definition pa_context_exit_daemon :: "native_common \<Rightarrow> world \<Rightarrow> world option" where
  "pa_context_exit_daemon K w =
     (if c_ref (w_context w) \<ge> 1
      then do {
        let t = pa_tagstruct_putu32 [] (PA_COMMAND_EXIT K);
        let (tag, w1) = next_ctag w;
        let t = pa_tagstruct_putu32 t tag;
        pa_pstream_send_tagstruct w1 t
      }
      else None)"

definition simple_callback :: "nat \<Rightarrow> bool \<Rightarrow> world \<Rightarrow> world" where
  "simple_callback o' success w =
     (if o_callback (w_operations w o')
      then emit (EV_simple_callback o' (w_context w) success) w else w)"

definition pa_context_simple_ack_callback ::
  "native_common \<Rightarrow> world \<Rightarrow> uint32_t \<Rightarrow> uint32_t \<Rightarrow> pa_tagstruct \<Rightarrow> nat \<Rightarrow> world option" where
  "pa_context_simple_ack_callback K w command tag t o' =
     (if o_ref (w_operations w o') \<ge> 1
      then do {
        w1 \<leftarrow> (if command \<noteq> PA_COMMAND_REPLY K then do {
                  (r, w') \<leftarrow> pa_context_handle_error K w command t;
                  if r < 0 then Some w' else Some (simple_callback o' False w')
                }
                else if \<not> pa_tagstruct_eof t then pa_context_fail w (PA_ERROR_PROTOCOL K)
                else Some (simple_callback o' True w));
        Some (pa_operation_unref o' (pa_operation_done o' w1))
      }
      else None)"

definition pa_context_send_simple_command ::
  "native_common \<Rightarrow> world \<Rightarrow> uint32_t \<Rightarrow> reply_callback \<Rightarrow> bool \<Rightarrow> (nat \<times> world) option" where
  "pa_context_send_simple_command K w command internal_callback cb =
     (if cb then do {
        let (o', w1) = pa_operation_new w;
        let w2 = w1\<lparr>w_operations := (w_operations w1)(o' := (w_operations w1 o')\<lparr>o_callback := cb\<rparr>)\<rparr>;
        let t = pa_tagstruct_putu32 [] command;
        let (tag, w3) = next_ctag w2;
        let t = pa_tagstruct_putu32 t tag;
        w4 \<leftarrow> pa_pstream_send_tagstruct w3 t;
        w5 \<leftarrow> pa_pdispatch_register_reply w4 tag (DEFAULT_TIMEOUT K) internal_callback
                (Userdata_operation o');
        Some (o', pa_operation_ref o' w5)
      }
      else None)"

subsection \<open>Vocabulary of the properties\<close>

text \<open>
  The stream state that a terminal context state forces, the events of the
  teardown in the order the source performs it, the context after it, and the
  stream store with the streams of a list moved to a state.
\<close>

definition stream_state_of :: "pa_context_state \<Rightarrow> pa_stream_state" where
  "stream_state_of st = (if st = PA_CONTEXT_FAILED then PA_STREAM_FAILED else PA_STREAM_TERMINATED)"

definition teardown_events :: "pa_context_state \<Rightarrow> pa_context \<Rightarrow> event list" where
  "teardown_events st c =
     map (\<lambda>s. EV_stream_set_state s (stream_state_of st)) (c_streams c)
     @ (case c_pdispatch c of None \<Rightarrow> [] | Some _ \<Rightarrow> [EV_pdispatch_unref])
     @ (case c_pstream c of None \<Rightarrow> [] | Some _ \<Rightarrow> [EV_pstream_close, EV_pstream_unref])
     @ (case c_client c of None \<Rightarrow> [] | Some _ \<Rightarrow> [EV_socket_client_unref])"

definition torn_down :: "pa_context_state \<Rightarrow> pa_context \<Rightarrow> pa_context" where
  "torn_down st c =
     c\<lparr>c_streams := [], c_pdispatch := None, c_pstream := None, c_client := None, c_state := st\<rparr>"

definition mark_streams ::
  "nat list \<Rightarrow> pa_stream_state \<Rightarrow> (nat \<Rightarrow> pa_stream) \<Rightarrow> nat \<Rightarrow> pa_stream" where
  "mark_streams ss st h = (\<lambda>i. if i \<in> set ss then (h i)\<lparr>s_state := st\<rparr> else h i)"

text \<open>
  The world after \<^verbatim>\<open>pa_context_fail\<close>: the error code is stored; unless the
  context had failed before, it is torn down and the state observer is told.
\<close>

definition failed_world :: "uint32_t \<Rightarrow> world \<Rightarrow> world" where
  "failed_world e w =
     (let c = (w_context w)\<lparr>c_error := e\<rparr>
      in if c_state c = PA_CONTEXT_FAILED then w\<lparr>w_context := c\<rparr>
         else w\<lparr>w_streams := mark_streams (c_streams c) PA_STREAM_FAILED (w_streams w),
                w_trace := w_trace w @ teardown_events PA_CONTEXT_FAILED c
                  @ (if c_state_callback c
                     then [EV_state_callback ((torn_down PA_CONTEXT_FAILED c)\<lparr>c_ref := c_ref c + 1\<rparr>)]
                     else []),
                w_context := torn_down PA_CONTEXT_FAILED c\<rparr>)"

text \<open>
  The operation store with the operations of a list marked finished, and the
  events of \<^verbatim>\<open>context_free\<close> in the order the source performs them.
\<close>

definition mark_done :: "nat list \<Rightarrow> (nat \<Rightarrow> pa_operation) \<Rightarrow> nat \<Rightarrow> pa_operation" where
  "mark_done os h = (\<lambda>i. if i \<in> set os then (h i)\<lparr>o_done := True\<rparr> else h i)"

definition destroy_events :: "pa_context \<Rightarrow> event list" where
  "destroy_events c =
     map EV_operation_cancel (c_operations c)
     @ map (\<lambda>s. EV_stream_set_state s PA_STREAM_TERMINATED) (c_streams c)
     @ (case c_client c of None \<Rightarrow> [] | Some _ \<Rightarrow> [EV_socket_client_unref])
     @ (case c_pdispatch c of None \<Rightarrow> [] | Some _ \<Rightarrow> [EV_pdispatch_unref])
     @ (case c_pstream c of None \<Rightarrow> [] | Some _ \<Rightarrow> [EV_pstream_close, EV_pstream_unref])
     @ [EV_dynarray_free, EV_dynarray_free, EV_memblock_stat_unref]"

text \<open>
  Kinds of events: the state observer, the user callback of a simple command,
  any operation callback.
\<close>

fun is_state_callback :: "event \<Rightarrow> bool" where
  "is_state_callback (EV_state_callback _) = True"
| "is_state_callback _ = False"

fun is_simple_callback :: "event \<Rightarrow> bool" where
  "is_simple_callback (EV_simple_callback _ _ _) = True"
| "is_simple_callback _ = False"

fun is_operation_callback :: "event \<Rightarrow> bool" where
  "is_operation_callback (EV_simple_callback _ _ _) = True"
| "is_operation_callback (EV_drain_callback _ _) = True"
| "is_operation_callback _ = False"

text \<open>
  Vocabulary for drain. An event is the completion callback of the drain
  operation \<open>o'\<close>; the context has outstanding work (either has-pending predicate
  holds); a drain callback event is quiet when the context it is called with
  has none; a drained notification is armed for \<open>o'\<close>; and the context after the
  two notifications have been cleared and armed again for \<open>o'\<close> on the
  components that are pending.
\<close>

fun is_drain_callback_of :: "nat \<Rightarrow> event \<Rightarrow> bool" where
  "is_drain_callback_of o' (EV_drain_callback x _) = (x = o')"
| "is_drain_callback_of o' _ = False"

definition context_pending :: "pa_context \<Rightarrow> bool" where
  "context_pending c =
     ((case c_pstream c of None \<Rightarrow> False | Some p \<Rightarrow> pa_pstream_is_pending p)
      \<or> (case c_pdispatch c of None \<Rightarrow> False | Some pd \<Rightarrow> pa_pdispatch_is_pending pd))"

fun quiet_drain_event :: "event \<Rightarrow> bool" where
  "quiet_drain_event (EV_drain_callback _ c) = (\<not> context_pending c)"
| "quiet_drain_event _ = True"

definition drain_armed :: "nat \<Rightarrow> pa_context \<Rightarrow> bool" where
  "drain_armed o' c =
     ((case c_pdispatch c of None \<Rightarrow> False | Some pd \<Rightarrow> pd_drain_callback pd = Some o')
      \<or> (case c_pstream c of None \<Rightarrow> False | Some p \<Rightarrow> ps_drain_callback p = Some o'))"

definition rearm :: "nat \<Rightarrow> pa_context \<Rightarrow> pa_context" where
  "rearm o' c =
     c\<lparr>c_pstream := map_option
          (\<lambda>p. p\<lparr>ps_drain_callback := if pa_pstream_is_pending p then Some o' else None\<rparr>) (c_pstream c),
       c_pdispatch := map_option
          (\<lambda>pd. pd\<lparr>pd_drain_callback := if pa_pdispatch_is_pending pd then Some o' else None\<rparr>)
          (c_pdispatch c)\<rparr>"

text \<open>
  How often the completion callback of \<open>o'\<close> occurs in a trace, and the
  invariant of a run: counted from position \<open>n0\<close> of the trace, the callback of
  \<open>o'\<close> has fired at most once, not at all while a notification is still armed
  for it, and every drain callback was quiet.
\<close>

definition drain_fired :: "nat \<Rightarrow> event list \<Rightarrow> nat" where
  "drain_fired o' tr = length (filter (is_drain_callback_of o') tr)"

definition drain_inv :: "nat \<Rightarrow> nat \<Rightarrow> world \<Rightarrow> bool" where
  "drain_inv n0 o' w =
     (o' < w_operation_alloc w \<and> n0 \<le> length (w_trace w)
      \<and> (drain_armed o' (w_context w) \<longrightarrow> drain_fired o' (drop n0 (w_trace w)) = 0)
      \<and> drain_fired o' (drop n0 (w_trace w)) \<le> 1
      \<and> list_all quiet_drain_event (drop n0 (w_trace w)))"

text \<open>
  Vocabulary for tags. The tag of a request message is its second item; the
  tags sent are those of the messages handed to the transport, in order; the
  pending tags are those of the dispatcher's reply registrations; and
  \<open>tags_from c n\<close> is \<open>c, c + 1, ..., c + (n - 1)\<close>, computed modulo \<open>2 ^ 32\<close>.
\<close>

fun tag_of_message :: "pa_tagstruct \<Rightarrow> uint32_t list" where
  "tag_of_message (_ # TAG_U32 tag # _) = [tag]"
| "tag_of_message _ = []"

fun tags_of_event :: "event \<Rightarrow> uint32_t list" where
  "tags_of_event (EV_pstream_send t) = tag_of_message t"
| "tags_of_event _ = []"

definition sent_tags :: "event list \<Rightarrow> uint32_t list" where
  "sent_tags tr = concat (map tags_of_event tr)"

definition pending_tags :: "world \<Rightarrow> uint32_t list" where
  "pending_tags w =
     (case c_pdispatch (w_context w) of None \<Rightarrow> [] | Some pd \<Rightarrow> map rr_tag (pd_replies pd))"

definition tags_from :: "uint32_t \<Rightarrow> nat \<Rightarrow> uint32_t list" where
  "tags_from c n = map (\<lambda>i. c + of_nat i) [0..<n]"

text \<open>
  The effect of a step that issues \<open>n\<close> requests: the trace grows by events whose
  sent tags are the \<open>n\<close> values from the old counter on, the counter advances by
  \<open>n\<close>, and the pending tags are among the old ones followed by the new ones.
\<close>

definition tag_effect :: "nat \<Rightarrow> world \<Rightarrow> world \<Rightarrow> bool" where
  "tag_effect n w w' =
     ((\<exists>ev. w_trace w' = w_trace w @ ev \<and> sent_tags ev = tags_from (c_ctag (w_context w)) n)
      \<and> c_ctag (w_context w') = c_ctag (w_context w) + of_nat n
      \<and> subseq (pending_tags w') (pending_tags w @ tags_from (c_ctag (w_context w)) n))"

subsection \<open>Runs\<close>

text \<open>
  Modelled from the spec: what happens around a drain. The caller may call
  \<^verbatim>\<open>pa_context_drain\<close>; replies arrive or time out and the transport writes or
  buffers (the pending sets of the two absent components change, here to any
  values); the dispatcher or the transport delivers its drained notification,
  which invokes the callback armed there, if any, with its user data.
\<close>

datatype drain_action =
    Act_drain bool
  | Act_progress "reply_registration list" "pa_tagstruct list"
  | Act_pdispatch_drained
  | Act_pstream_drained

fun drain_step :: "drain_action \<Rightarrow> world \<Rightarrow> world option" where
  "drain_step (Act_drain cb) w = map_option snd (pa_context_drain w cb)"
| "drain_step (Act_progress rs q) w =
     Some (w\<lparr>w_context := (w_context w)
             \<lparr>c_pdispatch := map_option (\<lambda>pd. pd\<lparr>pd_replies := rs\<rparr>) (c_pdispatch (w_context w)),
              c_pstream := map_option (\<lambda>p. p\<lparr>ps_send_queue := q\<rparr>) (c_pstream (w_context w))\<rparr>\<rparr>)"
| "drain_step Act_pdispatch_drained w =
     (case c_pdispatch (w_context w) of
        None \<Rightarrow> Some w
      | Some pd \<Rightarrow> (case pd_drain_callback pd of
                     None \<Rightarrow> Some w
                   | Some userdata \<Rightarrow> pdispatch_drain_callback userdata w))"
| "drain_step Act_pstream_drained w =
     (case c_pstream (w_context w) of
        None \<Rightarrow> Some w
      | Some p \<Rightarrow> (case ps_drain_callback p of
                    None \<Rightarrow> Some w
                  | Some userdata \<Rightarrow> pstream_drain_callback userdata w))"

fun drain_steps :: "drain_action list \<Rightarrow> world \<Rightarrow> world option" where
  "drain_steps [] w = Some w"
| "drain_steps (s # ss) w = Option.bind (drain_step s w) (drain_steps ss)"

text \<open>
  Modelled from the spec: what happens during a connection lifetime. The
  connector completes, a reply (or the timeout standing for it) is delivered to
  the handshake handler or to the simple acknowledgement of an operation, the
  caller asks the daemon to exit or sends a simple command or disconnects, the
  transport dies, and the dispatcher consumes a pending registration (the one
  at position \<open>i\<close>) when its reply or timeout arrives.
\<close>

datatype lifetime_action =
    Act_on_connection bool
  | Act_setup_complete uint32_t uint32_t pa_tagstruct
  | Act_exit_daemon
  | Act_send_simple_command uint32_t reply_callback
  | Act_simple_ack uint32_t uint32_t pa_tagstruct nat
  | Act_consume nat
  | Act_die
  | Act_disconnect

fun lifetime_step :: "native_common \<Rightarrow> lifetime_action \<Rightarrow> world \<Rightarrow> world option" where
  "lifetime_step K (Act_on_connection io) w = on_connection K w io"
| "lifetime_step K (Act_setup_complete command tag t) w = setup_complete_callback K w command tag t"
| "lifetime_step K Act_exit_daemon w = pa_context_exit_daemon K w"
| "lifetime_step K (Act_send_simple_command command cb) w =
     map_option snd (pa_context_send_simple_command K w command cb True)"
| "lifetime_step K (Act_simple_ack command tag t o') w =
     pa_context_simple_ack_callback K w command tag t o'"
| "lifetime_step K (Act_consume i) w =
     Some (w\<lparr>w_context := (w_context w)
             \<lparr>c_pdispatch := map_option
                (\<lambda>pd. pd\<lparr>pd_replies := take i (pd_replies pd) @ drop (Suc i) (pd_replies pd)\<rparr>)
                (c_pdispatch (w_context w))\<rparr>\<rparr>)"
| "lifetime_step K Act_die w = pstream_die_callback K w"
| "lifetime_step K Act_disconnect w = pa_context_disconnect w"

fun lifetime :: "native_common \<Rightarrow> lifetime_action list \<Rightarrow> world \<Rightarrow> world option" where
  "lifetime K [] w = Some w"
| "lifetime K (a # as) w = Option.bind (lifetime_step K a w) (lifetime K as)"

subsection \<open>Example inputs\<close>

text \<open>
  One admissible choice of the constants, a context as \<^verbatim>\<open>pa_context_new\<close>
  leaves it, and a connected context with a state observer, a playback stream
  and a record stream on channel 2.
\<close>

definition example_constants :: native_common where
  "example_constants =
     \<lparr>PA_COMMAND_ERROR = 0, PA_COMMAND_TIMEOUT = 1, PA_COMMAND_REPLY = 2, PA_COMMAND_EXIT = 7,
      PA_COMMAND_AUTH = 9, PA_COMMAND_SET_NAME = 10,
      PA_ERROR_OK = 0, PA_ERROR_CONNECTIONREFUSED = 6, PA_ERROR_PROTOCOL = 7, PA_ERROR_TIMEOUT = 8,
      PA_ERROR_AUTHKEY = 9, PA_ERROR_CONNECTIONTERMINATED = 11, PA_ERROR_INVALIDSERVER = 13,
      DEFAULT_PORT = ''4713'', DEFAULT_SERVER = ''/tmp/polypaudio/native'', DEFAULT_TIMEOUT = 10\<rparr>"

definition world_new :: "native_common \<Rightarrow> string \<Rightarrow> world" where
  "world_new K name =
     \<lparr>w_context = pa_context_new K name,
      w_streams = (\<lambda>_. \<lparr>s_state = PA_STREAM_LIVE, s_read_callback = False\<rparr>),
      w_operations = (\<lambda>_. \<lparr>o_ref = 0, o_callback = False, o_done = False\<rparr>),
      w_operation_alloc = 0, w_trace = [], w_freed = False\<rparr>"

definition example_ready :: world where
  "example_ready =
     (world_new example_constants ''client'')
       \<lparr>w_context := (pa_context_new example_constants ''client'')
          \<lparr>c_state := PA_CONTEXT_READY, c_state_callback := True, c_ctag := 2,
           c_pstream := Some (pa_pstream_new\<lparr>ps_die_callback := True,
              ps_recieve_packet_callback := True, ps_recieve_memblock_callback := True\<rparr>),
           c_pdispatch := Some pa_pdispatch_new,
           c_streams := [1, 0], c_playback_streams := [Some 0],
           c_record_streams := [None, None, Some 1]\<rparr>,
        w_streams := (\<lambda>_. \<lparr>s_state = PA_STREAM_LIVE, s_read_callback = False\<rparr>)
           (1 := \<lparr>s_state = PA_STREAM_LIVE, s_read_callback = True\<rparr>)\<rparr>"

text \<open>
  The connected context with one simple command in flight: its message is still
  buffered and its reply registration is pending. The same while the handshake
  is still waiting for the reply to AUTH.
\<close>

definition example_busy :: world where
  "example_busy =
     example_ready
       \<lparr>w_context := (w_context example_ready)
          \<lparr>c_ctag := 3, c_operations := [0],
           c_pstream := Some (pa_pstream_new\<lparr>ps_die_callback := True,
              ps_recieve_packet_callback := True, ps_recieve_memblock_callback := True,
              ps_send_queue := [[TAG_U32 7, TAG_U32 2]]\<rparr>),
           c_pdispatch := Some (pa_pdispatch_new\<lparr>pd_replies :=
              [\<lparr>rr_tag = 2, rr_timeout = 10, rr_callback = Simple_ack_callback,
                rr_userdata = Userdata_operation 0\<rparr>]\<rparr>)\<rparr>,
        w_operations := (w_operations example_ready)
           (0 := \<lparr>o_ref = 2, o_callback = True, o_done = False\<rparr>),
        w_operation_alloc := 1\<rparr>"

definition example_authorizing :: world where
  "example_authorizing =
     example_busy\<lparr>w_context := (w_context example_busy)\<lparr>c_state := PA_CONTEXT_AUTHORIZING\<rparr>\<rparr>"

text \<open>
  The connected context when the reply to its one simple command arrives: the
  message has been written and the dispatcher has consumed the registration.
\<close>

definition example_replied :: world where
  "example_replied =
     example_busy
       \<lparr>w_context := (w_context example_busy)
          \<lparr>c_pstream := Some (pa_pstream_new\<lparr>ps_die_callback := True,
              ps_recieve_packet_callback := True, ps_recieve_memblock_callback := True\<rparr>),
           c_pdispatch := Some pa_pdispatch_new\<rparr>\<rparr>"

text \<open>
  An environment whose cookie file cannot be read and whose resolver knows the
  host \<open>localhost\<close> with service \<open>4713\<close> only.
\<close>

definition example_no_cookie :: environment where
  "example_no_cookie =
     \<lparr>pa_authkey_load_from_home = None, getenv_ENV_DEFAULT_SERVER = None,
      getaddrinfo = (\<lambda>node service. if node = ''localhost'' \<and> service = ''4713''
                                      then Some [127, 0, 0, 1] else None),
      pa_socket_client_new_unix = (\<lambda>_. True),
      pa_socket_client_new_sockaddr = (\<lambda>_. True)\<rparr>"

text \<open>
  The same environment with a readable cookie.
\<close>

definition example_environment :: environment where
  "example_environment =
     example_no_cookie\<lparr>pa_authkey_load_from_home := Some (replicate 4 0)\<rparr>"

text \<open>
  A context while its connector is working, and a lifetime: the connection is
  made, AUTH and SET_NAME are answered, a simple command and EXIT are sent.
\<close>

definition example_connecting :: world where
  "example_connecting =
     (world_new example_constants ''client'')
       \<lparr>w_context := (pa_context_new example_constants ''client'')
          \<lparr>c_state := PA_CONTEXT_CONNECTING, c_state_callback := True,
           c_auth_cookie := replicate 4 0,
           c_client := Some \<lparr>sc_address = Address_unix ''/tmp/audiosock'', sc_callback = True\<rparr>\<rparr>\<rparr>"

definition example_lifetime :: "lifetime_action list" where
  "example_lifetime =
     [Act_on_connection True, Act_consume 0, Act_setup_complete 2 0 [], Act_consume 0,
      Act_setup_complete 2 1 [], Act_send_simple_command 7 Simple_ack_callback, Act_exit_daemon]"

section \<open>Properties\<close>

subsection \<open>State changes\<close>

lemma fold_remove1_append: "fold remove1 xs (xs @ ys) = ys"
  by (induction xs) auto

lemma fold_remove1_self: "fold remove1 xs xs = []"
  using fold_remove1_append [of xs "[]"] by simp

lemma mark_streams_Nil [simp]: "mark_streams [] st h = h"
  by (simp add: mark_streams_def)

lemma mark_streams_Cons:
  "mark_streams ss st (h(s := (h s)\<lparr>s_state := st\<rparr>)) = mark_streams (s # ss) st h"
  by (auto simp: mark_streams_def fun_eq_iff)

lemma set_state_streams_eq:
  "set_state_streams ss st w =
     w\<lparr>w_streams := mark_streams ss st (w_streams w),
       w_trace := w_trace w @ map (\<lambda>s. EV_stream_set_state s st) ss,
       w_context := (w_context w)\<lparr>c_streams :=
          (if st = PA_STREAM_FAILED \<or> st = PA_STREAM_TERMINATED
           then fold remove1 ss (c_streams (w_context w)) else c_streams (w_context w))\<rparr>\<rparr>"
proof (induction ss arbitrary: w)
  case Nil
  show ?case by simp
next
  case (Cons s ss)
  show ?case
    by (simp add: Cons.IH pa_stream_set_state_def emit_def Let_def mark_streams_Cons)
qed

lemma teardown_events_upd [simp]:
  "teardown_events st (c\<lparr>c_ref := r\<rparr>) = teardown_events st c"
  "teardown_events st (c\<lparr>c_error := e\<rparr>) = teardown_events st c"
  by (simp_all add: teardown_events_def)

lemma is_state_callback_teardown [simp]:
  "filter is_state_callback (teardown_events st c) = []"
  by (simp add: teardown_events_def split: option.split)

lemma release_pdispatch_eq:
  "release_pdispatch w =
     w\<lparr>w_trace := w_trace w
         @ (case c_pdispatch (w_context w) of None \<Rightarrow> [] | Some _ \<Rightarrow> [EV_pdispatch_unref])\<rparr>"
  by (simp add: release_pdispatch_def emit_def split: option.split)

lemma release_pstream_eq:
  "release_pstream w =
     w\<lparr>w_trace := w_trace w
         @ (case c_pstream (w_context w) of None \<Rightarrow> []
            | Some _ \<Rightarrow> [EV_pstream_close, EV_pstream_unref])\<rparr>"
  by (simp add: release_pstream_def emit_def split: option.split)

lemma release_client_eq:
  "release_client w =
     w\<lparr>w_trace := w_trace w
         @ (case c_client (w_context w) of None \<Rightarrow> [] | Some _ \<Rightarrow> [EV_socket_client_unref])\<rparr>"
  by (simp add: release_client_def emit_def split: option.split)

lemma set_state_teardown_eq:
  "st = PA_CONTEXT_FAILED \<or> st = PA_CONTEXT_TERMINATED \<Longrightarrow>
   set_state_teardown st w =
     w\<lparr>w_streams := mark_streams (c_streams (w_context w)) (stream_state_of st) (w_streams w),
       w_trace := w_trace w @ teardown_events st (w_context w),
       w_context := (w_context w)\<lparr>c_streams := [], c_pdispatch := None, c_pstream := None,
                                  c_client := None\<rparr>\<rparr>"
  unfolding set_state_teardown_def stream_state_of_def [symmetric]
  by (cases "stream_state_of st")
     (simp_all add: set_state_streams_eq Let_def release_pdispatch_eq
        release_pstream_eq release_client_eq teardown_events_def
        fold_remove1_self stream_state_of_def split: if_splits)

lemma pa_context_set_state_same:
  "c_state (w_context w) = st \<Longrightarrow> pa_context_set_state w st = Some w"
  by (simp add: pa_context_set_state_def)

lemma pa_context_set_state_terminal:
  assumes "st = PA_CONTEXT_FAILED \<or> st = PA_CONTEXT_TERMINATED"
    and "c_state (w_context w) \<noteq> st" and "c_ref (w_context w) \<ge> 1"
  shows "pa_context_set_state w st =
     Some (w\<lparr>w_streams := mark_streams (c_streams (w_context w)) (stream_state_of st) (w_streams w),
       w_trace := w_trace w @ teardown_events st (w_context w)
          @ (if c_state_callback (w_context w)
             then [EV_state_callback ((torn_down st (w_context w))\<lparr>c_ref := c_ref (w_context w) + 1\<rparr>)]
             else []),
       w_context := torn_down st (w_context w)\<rparr>)"
  using assms
  by (simp add: pa_context_set_state_def pa_context_ref_def pa_context_unref_def Let_def
        set_state_teardown_eq state_callback_def emit_def torn_down_def cong: if_cong)

lemma pa_context_set_state_live:
  assumes "st \<noteq> PA_CONTEXT_FAILED" and "st \<noteq> PA_CONTEXT_TERMINATED"
    and "c_state (w_context w) \<noteq> st" and "c_ref (w_context w) \<ge> 1"
  shows "pa_context_set_state w st =
     Some (w\<lparr>w_trace := w_trace w
          @ (if c_state_callback (w_context w)
             then [EV_state_callback ((w_context w)\<lparr>c_ref := c_ref (w_context w) + 1, c_state := st\<rparr>)]
             else []),
       w_context := (w_context w)\<lparr>c_state := st\<rparr>\<rparr>)"
  using assms
  by (simp add: pa_context_set_state_def pa_context_ref_def pa_context_unref_def Let_def
        state_callback_def emit_def)

text \<open>
  C3. Setting the state to FAILED or TERMINATED does nothing when the context is
  already in that state, so the second of two calls of \<^verbatim>\<open>pa_context_disconnect\<close>
  changes nothing and the two calls together invoke the state observer at most
  once. Otherwise the trace grows by: every owned stream forced, in list order,
  to FAILED (context failed) or TERMINATED (context disconnected); the release of
  the dispatcher; the close and release of the transport; the release of the
  connector; and only then the observer callback, which finds the new state
  committed, the three collaborators gone and no stream left in the list.
\<close>

theorem pa_context_set_state_terminal_order:
  assumes "st = PA_CONTEXT_FAILED \<or> st = PA_CONTEXT_TERMINATED" and "c_ref (w_context w) \<ge> 1"
  shows "(c_state (w_context w) = st \<longrightarrow> pa_context_set_state w st = Some w)
    \<and> (c_state (w_context w) \<noteq> st \<longrightarrow>
         pa_context_set_state w st =
           Some (w\<lparr>w_streams := mark_streams (c_streams (w_context w)) (stream_state_of st) (w_streams w),
                   w_trace := w_trace w @ teardown_events st (w_context w)
                     @ (if c_state_callback (w_context w)
                        then [EV_state_callback ((torn_down st (w_context w))\<lparr>c_ref := c_ref (w_context w) + 1\<rparr>)]
                        else []),
                   w_context := torn_down st (w_context w)\<rparr>))
    \<and> (\<exists>w'. pa_context_disconnect w = Some w' \<and> pa_context_disconnect w' = Some w'
           \<and> length (filter is_state_callback (drop (length (w_trace w)) (w_trace w'))) \<le> 1)"
proof (intro conjI impI)
  assume "c_state (w_context w) = st"
  then show "pa_context_set_state w st = Some w"
    by (rule pa_context_set_state_same)
next
  assume "c_state (w_context w) \<noteq> st"
  with assms show "pa_context_set_state w st =
           Some (w\<lparr>w_streams := mark_streams (c_streams (w_context w)) (stream_state_of st) (w_streams w),
                   w_trace := w_trace w @ teardown_events st (w_context w)
                     @ (if c_state_callback (w_context w)
                        then [EV_state_callback ((torn_down st (w_context w))\<lparr>c_ref := c_ref (w_context w) + 1\<rparr>)]
                        else []),
                   w_context := torn_down st (w_context w)\<rparr>)"
    by (simp add: pa_context_set_state_terminal)
next
  show "\<exists>w'. pa_context_disconnect w = Some w' \<and> pa_context_disconnect w' = Some w'
           \<and> length (filter is_state_callback (drop (length (w_trace w)) (w_trace w'))) \<le> 1"
  proof (cases "c_state (w_context w) = PA_CONTEXT_TERMINATED")
    case True
    then show ?thesis
      by (simp add: pa_context_disconnect_def pa_context_set_state_same)
  next
    case False
    then show ?thesis
      using assms(2)
      by (simp add: pa_context_disconnect_def pa_context_set_state_terminal
            pa_context_set_state_same torn_down_def)
  qed
qed

theorem pa_context_set_state_terminal_order_witness:
  "c_ref (w_context example_ready) \<ge> 1
   \<and> w_trace (the (pa_context_disconnect example_ready)) =
       [EV_stream_set_state 1 PA_STREAM_TERMINATED, EV_stream_set_state 0 PA_STREAM_TERMINATED,
        EV_pdispatch_unref, EV_pstream_close, EV_pstream_unref,
        EV_state_callback ((w_context example_ready)\<lparr>c_streams := [], c_pdispatch := None,
           c_pstream := None, c_client := None, c_state := PA_CONTEXT_TERMINATED, c_ref := 2\<rparr>)]
   \<and> pa_context_set_state (the (pa_context_disconnect example_ready)) PA_CONTEXT_TERMINATED
       = pa_context_disconnect example_ready"
  using pa_context_set_state_terminal_order [of PA_CONTEXT_TERMINATED example_ready]
    pa_context_set_state_terminal_order [of PA_CONTEXT_TERMINATED "the (pa_context_disconnect example_ready)"]
  by (simp add: example_ready_def world_new_def pa_context_new_def pa_context_disconnect_def
        teardown_events_def torn_down_def stream_state_of_def)

subsection \<open>Pending work\<close>

text \<open>
  C10. \<^verbatim>\<open>pa_context_is_pending\<close> returns 0 whenever the state is not READY,
  whatever the dispatcher and the transport hold; in state READY it returns 1
  exactly when the transport or the dispatcher reports pending work.
\<close>

theorem pa_context_is_pending_result:
  "c_ref (w_context w) \<ge> 1 \<Longrightarrow>
   (c_state (w_context w) \<noteq> PA_CONTEXT_READY \<longrightarrow> pa_context_is_pending w = Some 0) \<and>
   (c_state (w_context w) = PA_CONTEXT_READY \<longrightarrow>
      c_pstream (w_context w) = Some p \<longrightarrow> c_pdispatch (w_context w) = Some pd \<longrightarrow>
      pa_context_is_pending w =
        Some (if pa_pstream_is_pending p \<or> pa_pdispatch_is_pending pd then 1 else 0))"
  by (simp add: pa_context_is_pending_def)

theorem pa_context_is_pending_result_witness:
  "c_ref (w_context example_authorizing) \<ge> 1
   \<and> c_state (w_context example_authorizing) \<noteq> PA_CONTEXT_READY
   \<and> pa_context_is_pending example_authorizing = Some 0
   \<and> c_state (w_context example_busy) = PA_CONTEXT_READY
   \<and> pa_context_is_pending example_busy = Some 1
   \<and> pa_context_is_pending example_ready = Some 0"
  using pa_context_is_pending_result [of example_authorizing]
    pa_context_is_pending_result [of example_busy "the (c_pstream (w_context example_busy))"
      "the (c_pdispatch (w_context example_busy))"]
    pa_context_is_pending_result [of example_ready "the (c_pstream (w_context example_ready))"
      "the (c_pdispatch (w_context example_ready))"]
  by (simp add: example_authorizing_def example_busy_def example_ready_def world_new_def
        pa_context_new_def pa_pstream_new_def pa_pdispatch_new_def pa_pstream_is_pending_def
        pa_pdispatch_is_pending_def)

subsection \<open>Failing the context\<close>

lemma pa_context_fail_eq:
  "c_ref (w_context w) \<ge> 1 \<Longrightarrow> pa_context_fail w e = Some (failed_world e w)"
  by (simp add: pa_context_fail_def failed_world_def Let_def pa_context_set_state_same
        pa_context_set_state_terminal stream_state_of_def)

lemma failed_world_simps [simp]:
  "c_state (w_context (failed_world e w)) = PA_CONTEXT_FAILED"
  "c_error (w_context (failed_world e w)) = e"
  "c_ref (w_context (failed_world e w)) = c_ref (w_context w)"
  "c_operations (w_context (failed_world e w)) = c_operations (w_context w)"
  "w_operations (failed_world e w) = w_operations w"
  "w_operation_alloc (failed_world e w) = w_operation_alloc w"
  "w_freed (failed_world e w) = w_freed w"
  by (simp_all add: failed_world_def Let_def torn_down_def)

lemma failed_world_client:
  "c_state (w_context w) \<noteq> PA_CONTEXT_FAILED \<Longrightarrow> c_client (w_context (failed_world e w)) = None"
  by (simp add: failed_world_def Let_def torn_down_def)

lemma is_simple_callback_teardown [simp]:
  "filter is_simple_callback (teardown_events st c) = []"
  by (simp add: teardown_events_def split: option.split)

lemma failed_world_no_simple_callback:
  "filter is_simple_callback (w_trace (failed_world e w)) = filter is_simple_callback (w_trace w)"
  by (simp add: failed_world_def Let_def)

text \<open>
  C1, as amended. When the cookie cannot be loaded, \<^verbatim>\<open>pa_context_connect\<close> on an
  UNCONNECTED context returns \<open>-1\<close> at once with the last error AuthKeyError and no
  connector; it does so through \<^verbatim>\<open>pa_context_fail\<close>, so the context enters FAILED
  and the state observer, if registered, is invoked once and finds that state.
\<close>

theorem pa_context_connect_authkey:
  assumes "pa_authkey_load_from_home env = None"
    and "c_ref (w_context w) \<ge> 1" and "c_state (w_context w) = PA_CONTEXT_UNCONNECTED"
  shows "\<exists>w'. pa_context_connect K env w server = Some (- 1, w')
    \<and> c_error (w_context w') = PA_ERROR_AUTHKEY K
    \<and> c_state (w_context w') = PA_CONTEXT_FAILED
    \<and> c_client (w_context w') = None
    \<and> c_ref (w_context w') = c_ref (w_context w)
    \<and> w_trace w' = w_trace w @ teardown_events PA_CONTEXT_FAILED (w_context w)
         @ (if c_state_callback (w_context w)
            then [EV_state_callback ((torn_down PA_CONTEXT_FAILED (w_context w))
                    \<lparr>c_error := PA_ERROR_AUTHKEY K, c_ref := c_ref (w_context w) + 2\<rparr>)]
            else [])"
  using assms
  by (simp add: pa_context_connect_def pa_context_ref_def pa_context_fail_eq
        pa_context_unref_def Let_def failed_world_def torn_down_def)

text \<open>
  C1 as stated fails: connecting a new context to \<open>/tmp/audiosock\<close> with an
  unreadable cookie leaves it in state FAILED, not UNCONNECTED.
\<close>

theorem pa_context_connect_authkey_counterexample:
  "map_option (c_state \<circ> w_context \<circ> snd)
     (pa_context_connect example_constants example_no_cookie
        (world_new example_constants ''client'') (Some ''/tmp/audiosock''))
   = Some PA_CONTEXT_FAILED"
  by (simp add: pa_context_connect_def pa_context_ref_def pa_context_fail_eq
        pa_context_unref_def Let_def failed_world_def torn_down_def
        example_no_cookie_def world_new_def pa_context_new_def)

theorem pa_context_connect_authkey_witness:
  "pa_authkey_load_from_home example_no_cookie = None
   \<and> c_state (w_context (world_new example_constants ''client'')) = PA_CONTEXT_UNCONNECTED
   \<and> map_option fst (pa_context_connect example_constants example_no_cookie
        (world_new example_constants ''client'') (Some ''/tmp/audiosock'')) = Some (- 1)
   \<and> map_option (c_error \<circ> w_context \<circ> snd) (pa_context_connect example_constants example_no_cookie
        (world_new example_constants ''client'') (Some ''/tmp/audiosock'')) = Some 9"
  using pa_context_connect_authkey [of example_no_cookie "world_new example_constants ''client''"
      example_constants "Some ''/tmp/audiosock''"]
  by (auto simp add: example_no_cookie_def world_new_def pa_context_new_def example_constants_def)

subsection \<open>Error translation and the simple acknowledgement\<close>

lemma pa_context_handle_error_ERROR:
  "pa_tagstruct_getu32 t = Some (v, t') \<Longrightarrow>
   pa_context_handle_error K w (PA_COMMAND_ERROR K) t
     = Some (0, w\<lparr>w_context := (w_context w)\<lparr>c_error := v\<rparr>\<rparr>)"
  by (simp add: pa_context_handle_error_def)

lemma pa_context_handle_error_truncated:
  "pa_tagstruct_getu32 t = None \<Longrightarrow> c_ref (w_context w) \<ge> 1 \<Longrightarrow>
   pa_context_handle_error K w (PA_COMMAND_ERROR K) t
     = Some (- 1, failed_world (PA_ERROR_PROTOCOL K) w)"
  by (simp add: pa_context_handle_error_def pa_context_fail_eq)

lemma pa_context_handle_error_TIMEOUT:
  "PA_COMMAND_TIMEOUT K \<noteq> PA_COMMAND_ERROR K \<Longrightarrow>
   pa_context_handle_error K w (PA_COMMAND_TIMEOUT K) t
     = Some (0, w\<lparr>w_context := (w_context w)\<lparr>c_error := PA_ERROR_TIMEOUT K\<rparr>\<rparr>)"
  by (simp add: pa_context_handle_error_def)

lemma pa_context_handle_error_other:
  "command \<noteq> PA_COMMAND_ERROR K \<Longrightarrow> command \<noteq> PA_COMMAND_TIMEOUT K \<Longrightarrow>
   c_ref (w_context w) \<ge> 1 \<Longrightarrow>
   pa_context_handle_error K w command t = Some (- 1, failed_world (PA_ERROR_PROTOCOL K) w)"
  by (simp add: pa_context_handle_error_def pa_context_fail_eq)

lemma finish_trace:
  "w_trace (pa_operation_unref o' (pa_operation_done o' w)) = w_trace w @ [EV_operation_done o']"
  "c_ref (w_context (pa_operation_unref o' (pa_operation_done o' w))) = c_ref (w_context w)"
  "o_done (w_operations (pa_operation_unref o' (pa_operation_done o' w)) o')"
  "c_operations (w_context (pa_operation_unref o' (pa_operation_done o' w)))
     = remove1 o' (c_operations (w_context w))"
  "c_state (w_context (pa_operation_unref o' (pa_operation_done o' w))) = c_state (w_context w)"
  "c_error (w_context (pa_operation_unref o' (pa_operation_done o' w))) = c_error (w_context w)"
  by (simp_all add: pa_operation_unref_def pa_operation_done_def emit_def Let_def)



lemma finish_filter:
  "filter is_simple_callback (w_trace (pa_operation_unref o' (pa_operation_done o' w)))
     = filter is_simple_callback (w_trace w)"
  by (simp add: finish_trace)

lemma simple_ack_REPLY_eof:
  assumes "o_ref (w_operations w o') \<ge> 1" and "pa_tagstruct_eof t"
  shows "pa_context_simple_ack_callback K w (PA_COMMAND_REPLY K) tag t o'
     = Some (pa_operation_unref o' (pa_operation_done o' (simple_callback o' True w)))"
  using assms by (simp add: pa_context_simple_ack_callback_def)

lemma simple_ack_REPLY_trailing:
  assumes "o_ref (w_operations w o') \<ge> 1" and "\<not> pa_tagstruct_eof t" and "c_ref (w_context w) \<ge> 1"
  shows "pa_context_simple_ack_callback K w (PA_COMMAND_REPLY K) tag t o'
     = Some (pa_operation_unref o' (pa_operation_done o' (failed_world (PA_ERROR_PROTOCOL K) w)))"
  using assms by (simp add: pa_context_simple_ack_callback_def pa_context_fail_eq)

lemma simple_ack_handled:
  assumes "o_ref (w_operations w o') \<ge> 1" and "command \<noteq> PA_COMMAND_REPLY K"
    and "pa_context_handle_error K w command t = Some (0, w1)"
  shows "pa_context_simple_ack_callback K w command tag t o'
     = Some (pa_operation_unref o' (pa_operation_done o' (simple_callback o' False w1)))"
  using assms by (simp add: pa_context_simple_ack_callback_def)

lemma simple_ack_fatal:
  assumes "o_ref (w_operations w o') \<ge> 1" and "command \<noteq> PA_COMMAND_REPLY K"
    and "pa_context_handle_error K w command t = Some (- 1, w1)"
  shows "pa_context_simple_ack_callback K w command tag t o'
     = Some (pa_operation_unref o' (pa_operation_done o' w1))"
  using assms by (simp add: pa_context_simple_ack_callback_def)

text \<open>
  C2, as amended. Every reply delivered to the simple acknowledgement finishes
  the operation: it is marked done and unlinked, last of all. Before that the
  user callback (if set) is invoked exactly once with success true on a success
  reply without trailing data, and exactly once with success false on ERROR with
  a readable code and on TIMEOUT. On a success reply with trailing data, on a
  truncated ERROR and on any other command the context fails with ProtocolError
  and the user callback is not invoked.
\<close>

theorem pa_context_simple_ack_callback_completes:
  assumes "PA_COMMAND_ERROR K \<noteq> PA_COMMAND_REPLY K" and "PA_COMMAND_TIMEOUT K \<noteq> PA_COMMAND_REPLY K"
    and "PA_COMMAND_TIMEOUT K \<noteq> PA_COMMAND_ERROR K"
    and "c_ref (w_context w) \<ge> 1" and "o_ref (w_operations w o') \<ge> 1"
  shows "\<exists>w'. pa_context_simple_ack_callback K w command tag t o' = Some w'
    \<and> o_done (w_operations w' o')
    \<and> c_operations (w_context w') = remove1 o' (c_operations (w_context w))
    \<and> (command = PA_COMMAND_REPLY K \<and> pa_tagstruct_eof t \<longrightarrow>
          w_trace w' = w_trace w
            @ (if o_callback (w_operations w o')
               then [EV_simple_callback o' (w_context w) True] else [])
            @ [EV_operation_done o'])
    \<and> (command = PA_COMMAND_ERROR K \<and> pa_tagstruct_getu32 t = Some (v, t') \<longrightarrow>
          w_trace w' = w_trace w
            @ (if o_callback (w_operations w o')
               then [EV_simple_callback o' ((w_context w)\<lparr>c_error := v\<rparr>) False] else [])
            @ [EV_operation_done o'])
    \<and> (command = PA_COMMAND_TIMEOUT K \<longrightarrow>
          w_trace w' = w_trace w
            @ (if o_callback (w_operations w o')
               then [EV_simple_callback o' ((w_context w)\<lparr>c_error := PA_ERROR_TIMEOUT K\<rparr>) False] else [])
            @ [EV_operation_done o'])
    \<and> ((command = PA_COMMAND_REPLY K \<and> \<not> pa_tagstruct_eof t)
         \<or> (command = PA_COMMAND_ERROR K \<and> pa_tagstruct_getu32 t = None)
         \<or> (command \<noteq> PA_COMMAND_REPLY K \<and> command \<noteq> PA_COMMAND_ERROR K
              \<and> command \<noteq> PA_COMMAND_TIMEOUT K) \<longrightarrow>
          w_trace w' = w_trace (failed_world (PA_ERROR_PROTOCOL K) w) @ [EV_operation_done o']
          \<and> filter is_simple_callback (w_trace w') = filter is_simple_callback (w_trace w)
          \<and> c_state (w_context w') = PA_CONTEXT_FAILED
          \<and> c_error (w_context w') = PA_ERROR_PROTOCOL K)"
proof -
  consider (ok) "command = PA_COMMAND_REPLY K" "pa_tagstruct_eof t"
    | (trailing) "command = PA_COMMAND_REPLY K" "\<not> pa_tagstruct_eof t"
    | (err) v0 t0 where "command = PA_COMMAND_ERROR K" "pa_tagstruct_getu32 t = Some (v0, t0)"
    | (trunc) "command = PA_COMMAND_ERROR K" "pa_tagstruct_getu32 t = None"
    | (timeout) "command = PA_COMMAND_TIMEOUT K"
    | (other) "command \<noteq> PA_COMMAND_REPLY K" "command \<noteq> PA_COMMAND_ERROR K"
        "command \<noteq> PA_COMMAND_TIMEOUT K"
    by (cases "pa_tagstruct_getu32 t") auto
  then show ?thesis
  proof cases
    case ok
    with assms show ?thesis
      by (simp add: simple_ack_REPLY_eof finish_trace simple_callback_def emit_def)
  next
    case trailing
    with assms show ?thesis
      by (simp add: simple_ack_REPLY_trailing finish_trace failed_world_no_simple_callback)
  next
    case err
    with assms show ?thesis
      by (simp add: simple_ack_handled [OF _ _ pa_context_handle_error_ERROR]
            finish_trace simple_callback_def emit_def)
  next
    case trunc
    with assms show ?thesis
      by (simp add: simple_ack_fatal [OF _ _ pa_context_handle_error_truncated]
            finish_trace failed_world_no_simple_callback)
  next
    case timeout
    with assms show ?thesis
      by (simp add: simple_ack_handled [OF _ _ pa_context_handle_error_TIMEOUT]
            finish_trace simple_callback_def emit_def)
  next
    case other
    with assms show ?thesis
      by (simp add: simple_ack_fatal [OF _ _ pa_context_handle_error_other]
            finish_trace failed_world_no_simple_callback)
  qed
qed

text \<open>
  C2 as stated fails: a success reply with trailing data to an operation whose
  callback is set produces no invocation of that callback.
\<close>

theorem pa_context_simple_ack_callback_counterexample:
  "o_callback (w_operations example_replied 0)
   \<and> \<not> pa_tagstruct_eof [TAG_U32 5]
   \<and> map_option (filter is_simple_callback \<circ> w_trace)
        (pa_context_simple_ack_callback example_constants example_replied
           (PA_COMMAND_REPLY example_constants) 2 [TAG_U32 5] 0) = Some []"
  by (simp add: simple_ack_REPLY_trailing finish_trace failed_world_no_simple_callback
        pa_tagstruct_eof_def example_replied_def example_busy_def example_ready_def
        world_new_def pa_context_new_def)

theorem pa_context_simple_ack_callback_completes_witness:
  "PA_COMMAND_ERROR example_constants \<noteq> PA_COMMAND_REPLY example_constants
   \<and> PA_COMMAND_TIMEOUT example_constants \<noteq> PA_COMMAND_REPLY example_constants
   \<and> PA_COMMAND_TIMEOUT example_constants \<noteq> PA_COMMAND_ERROR example_constants
   \<and> c_ref (w_context example_replied) \<ge> 1 \<and> o_ref (w_operations example_replied 0) \<ge> 1
   \<and> map_option w_trace (pa_context_simple_ack_callback example_constants example_replied 2 2 [] 0)
       = Some [EV_simple_callback 0 (w_context example_replied) True, EV_operation_done 0]
   \<and> map_option w_trace (pa_context_simple_ack_callback example_constants example_replied 0 2 [TAG_U32 5] 0)
       = Some [EV_simple_callback 0 ((w_context example_replied)\<lparr>c_error := 5\<rparr>) False,
               EV_operation_done 0]
   \<and> map_option (c_state \<circ> w_context)
        (pa_context_simple_ack_callback example_constants example_replied 2 2 [TAG_U32 5] 0)
       = Some PA_CONTEXT_FAILED"
  using pa_context_simple_ack_callback_completes [of example_constants example_replied 0 2 2 "[]" 5 "[]"]
    pa_context_simple_ack_callback_completes [of example_constants example_replied 0 0 2 "[TAG_U32 5]" 5 "[]"]
    pa_context_simple_ack_callback_completes [of example_constants example_replied 0 2 2 "[TAG_U32 5]" 5 "[]"]
  by (auto simp add: example_constants_def example_replied_def example_busy_def example_ready_def
        world_new_def pa_context_new_def pa_tagstruct_eof_def)

subsection \<open>Destruction\<close>

lemma mark_done_Nil [simp]: "mark_done [] h = h"
  by (simp add: mark_done_def)

lemma mark_done_Cons:
  "mark_done os (h(x := (h x)\<lparr>o_done := True\<rparr>)) = mark_done (x # os) h"
  by (auto simp: mark_done_def fun_eq_iff)

lemma context_free_operations_eq:
  "c_operations (w_context w) = os \<Longrightarrow>
   context_free_operations w =
     w\<lparr>w_operations := mark_done os (w_operations w),
       w_trace := w_trace w @ map EV_operation_cancel os,
       w_context := (w_context w)\<lparr>c_operations := []\<rparr>\<rparr>"
proof (induction os arbitrary: w)
  case Nil
  then show ?case
    by (subst context_free_operations.simps) simp
next
  case (Cons x os)
  have step: "context_free_operations w = context_free_operations (pa_operation_cancel x w)"
    using Cons.prems by (subst context_free_operations.simps) simp
  have ops: "c_operations (w_context (pa_operation_cancel x w)) = os"
    using Cons.prems by (simp add: pa_operation_cancel_def emit_def Let_def)
  have cancel: "pa_operation_cancel x w =
      w\<lparr>w_operations := (w_operations w)(x := (w_operations w x)\<lparr>o_done := True\<rparr>),
        w_trace := w_trace w @ [EV_operation_cancel x],
        w_context := (w_context w)\<lparr>c_operations := os\<rparr>\<rparr>"
    using Cons.prems by (simp add: pa_operation_cancel_def emit_def Let_def)
  show ?case
    unfolding step Cons.IH [OF ops]
    by (simp add: cancel mark_done_Cons)
qed

lemma context_free_streams_eq:
  "c_streams (w_context w) = ss \<Longrightarrow>
   context_free_streams w =
     w\<lparr>w_streams := mark_streams ss PA_STREAM_TERMINATED (w_streams w),
       w_trace := w_trace w @ map (\<lambda>s. EV_stream_set_state s PA_STREAM_TERMINATED) ss,
       w_context := (w_context w)\<lparr>c_streams := []\<rparr>\<rparr>"
proof (induction ss arbitrary: w)
  case Nil
  then show ?case
    by (subst context_free_streams.simps) simp
next
  case (Cons x ss)
  have step: "context_free_streams w = context_free_streams (pa_stream_set_state x PA_STREAM_TERMINATED w)"
    using Cons.prems by (subst context_free_streams.simps) simp
  have ss: "c_streams (w_context (pa_stream_set_state x PA_STREAM_TERMINATED w)) = ss"
    using Cons.prems by (simp add: pa_stream_set_state_def emit_def Let_def)
  have set: "pa_stream_set_state x PA_STREAM_TERMINATED w =
      w\<lparr>w_streams := (w_streams w)(x := (w_streams w x)\<lparr>s_state := PA_STREAM_TERMINATED\<rparr>),
        w_trace := w_trace w @ [EV_stream_set_state x PA_STREAM_TERMINATED],
        w_context := (w_context w)\<lparr>c_streams := ss\<rparr>\<rparr>"
    using Cons.prems by (simp add: pa_stream_set_state_def emit_def Let_def)
  show ?case
    unfolding step Cons.IH [OF ss]
    by (simp add: set mark_streams_Cons)
qed

lemma context_free_operations_eq':
  "context_free_operations w =
     w\<lparr>w_operations := mark_done (c_operations (w_context w)) (w_operations w),
       w_trace := w_trace w @ map EV_operation_cancel (c_operations (w_context w)),
       w_context := (w_context w)\<lparr>c_operations := []\<rparr>\<rparr>"
  by (rule context_free_operations_eq) simp

lemma context_free_streams_eq':
  "context_free_streams w =
     w\<lparr>w_streams := mark_streams (c_streams (w_context w)) PA_STREAM_TERMINATED (w_streams w),
       w_trace := w_trace w @ map (\<lambda>s. EV_stream_set_state s PA_STREAM_TERMINATED) (c_streams (w_context w)),
       w_context := (w_context w)\<lparr>c_streams := []\<rparr>\<rparr>"
  by (rule context_free_streams_eq) simp

lemma context_free_eq:
  "context_free w =
     w\<lparr>w_operations := mark_done (c_operations (w_context w)) (w_operations w),
       w_streams := mark_streams (c_streams (w_context w)) PA_STREAM_TERMINATED (w_streams w),
       w_trace := w_trace w @ destroy_events (w_context w),
       w_context := (w_context w)\<lparr>c_operations := [], c_streams := []\<rparr>,
       w_freed := True\<rparr>"
  by (simp add: context_free_def Let_def context_free_operations_eq' context_free_streams_eq'
        release_client_eq release_pdispatch_eq release_pstream_eq emit_def destroy_events_def)

lemma destroy_events_upd [simp]: "destroy_events (c\<lparr>c_ref := r\<rparr>) = destroy_events c"
  by (simp add: destroy_events_def)

lemma destroy_events_no_callback: "filter is_operation_callback (destroy_events c) = []"
  by (simp add: destroy_events_def split: option.split)



subsection \<open>Memory chunks\<close>

text \<open>
  C8. A memory chunk for a channel: when the record array holds a stream at
  that index, the stream's read callback (if set) is called with the block's
  data, the chunk's offset into it and the chunk's length, and nothing else
  changes; when the slot is empty or beyond the array, the world is unchanged:
  no callback, no error, the same context state.
\<close>

theorem pstream_memblock_callback_routes:
  assumes "c_ref (w_context w) \<ge> 1"
  shows "(pa_dynarray_get (c_record_streams (w_context w)) (unat channel) = Some s \<longrightarrow>
            pstream_memblock_callback w channel delta chunk =
              Some (if s_read_callback (w_streams w s)
                    then w\<lparr>w_trace := w_trace w @
                           [EV_read_callback s (mc_memblock_data chunk) (mc_index chunk) (mc_length chunk)]\<rparr>
                    else w))
       \<and> (pa_dynarray_get (c_record_streams (w_context w)) (unat channel) = None \<longrightarrow>
            pstream_memblock_callback w channel delta chunk = Some w)"
  using assms
  by (simp add: pstream_memblock_callback_def pa_context_ref_def pa_context_unref_def Let_def emit_def)

theorem pstream_memblock_callback_routes_witness:
  "c_ref (w_context example_ready) \<ge> 1
   \<and> pa_dynarray_get (c_record_streams (w_context example_ready)) (unat (2 :: uint32_t)) = Some 1
   \<and> pstream_memblock_callback example_ready 2 0
        \<lparr>mc_memblock_data = [1, 2, 3, 4], mc_index = 1, mc_length = 2\<rparr>
       = Some (example_ready\<lparr>w_trace := [EV_read_callback 1 [1, 2, 3, 4] 1 2]\<rparr>)
   \<and> pa_dynarray_get (c_record_streams (w_context example_ready)) (unat (3 :: uint32_t)) = None
   \<and> pstream_memblock_callback example_ready 3 0
        \<lparr>mc_memblock_data = [1, 2, 3, 4], mc_index = 1, mc_length = 2\<rparr> = Some example_ready
   \<and> pstream_memblock_callback example_ready 0 0
        \<lparr>mc_memblock_data = [1, 2, 3, 4], mc_index = 1, mc_length = 2\<rparr> = Some example_ready"
  using pstream_memblock_callback_routes [of example_ready 2 1 0
      "\<lparr>mc_memblock_data = [1, 2, 3, 4], mc_index = 1, mc_length = 2\<rparr>"]
    pstream_memblock_callback_routes [of example_ready 3 1 0
      "\<lparr>mc_memblock_data = [1, 2, 3, 4], mc_index = 1, mc_length = 2\<rparr>"]
    pstream_memblock_callback_routes [of example_ready 0 1 0
      "\<lparr>mc_memblock_data = [1, 2, 3, 4], mc_index = 1, mc_length = 2\<rparr>"]
  by (simp add: example_ready_def world_new_def pa_context_new_def pa_dynarray_get_def)

subsection \<open>Resolving the server address\<close>

text \<open>
  C9, the code at the address \<open>localhost:4713\<close>. \<^verbatim>\<open>resolve_server\<close> finds the port
  after the last colon but hands the whole address, colon and port included, to
  the resolver as the node name. A resolver that knows the host \<open>localhost\<close>
  with service \<open>4713\<close> therefore does not resolve it: \<^verbatim>\<open>pa_context_connect\<close>
  fails with InvalidServer, although the same host without a port connects.
\<close>

theorem resolve_server_host_port_divergence:
  "resolve_server example_constants example_environment ''localhost:4713''
     = getaddrinfo example_environment ''localhost:4713'' ''4713''
   \<and> getaddrinfo example_environment ''localhost:4713'' ''4713'' = None
   \<and> getaddrinfo example_environment ''localhost'' ''4713'' = Some [127, 0, 0, 1]
   \<and> map_option fst (pa_context_connect example_constants example_environment
        (world_new example_constants ''client'') (Some ''localhost:4713'')) = Some (- 1)
   \<and> map_option (c_error \<circ> w_context \<circ> snd) (pa_context_connect example_constants example_environment
        (world_new example_constants ''client'') (Some ''localhost:4713''))
       = Some (PA_ERROR_INVALIDSERVER example_constants)
   \<and> map_option fst (pa_context_connect example_constants example_environment
        (world_new example_constants ''client'') (Some ''localhost'')) = Some 0
   \<and> map_option (c_client \<circ> w_context \<circ> snd) (pa_context_connect example_constants example_environment
        (world_new example_constants ''client'') (Some ''localhost''))
       = Some (Some \<lparr>sc_address = Address_sockaddr [127, 0, 0, 1], sc_callback = True\<rparr>)"
  by (simp add: resolve_server_def pa_context_connect_def pa_context_ref_def pa_context_fail_eq
        pa_context_unref_def Let_def failed_world_def torn_down_def pa_context_set_state_live
        pa_socket_client_new_def pa_socket_client_set_callback_def
        example_environment_def example_no_cookie_def world_new_def pa_context_new_def
        example_constants_def)

subsection \<open>Drain\<close>

lemma context_pending_rearm [simp]: "context_pending (rearm o' c) = context_pending c"
  by (cases "c_pstream c"; cases "c_pdispatch c")
     (simp_all add: context_pending_def rearm_def pa_pstream_is_pending_def pa_pdispatch_is_pending_def)

lemma drain_armed_rearm:
  "drain_armed x (rearm o' c) = (x = o' \<and> context_pending c)"
  by (cases "c_pstream c"; cases "c_pdispatch c")
     (auto simp: drain_armed_def context_pending_def rearm_def)

lemma rearm_fields [simp]:
  "c_ref (rearm o' c) = c_ref c" "c_state (rearm o' c) = c_state c"
  "c_operations (rearm o' c) = c_operations c" "c_streams (rearm o' c) = c_streams c"
  "c_error (rearm o' c) = c_error c" "c_ctag (rearm o' c) = c_ctag c"
  by (simp_all add: rearm_def)

lemma set_dispatch_callbacks_eq:
  assumes "c_ref (w_context w) \<ge> 1" and "o_ref (w_operations w o') \<ge> 1"
    and "c_state (w_context w) = PA_CONTEXT_READY"
    and "c_pstream (w_context w) = Some p" and "c_pdispatch (w_context w) = Some pd"
  shows "set_dispatch_callbacks o' w =
     Some (if context_pending (w_context w)
           then w\<lparr>w_context := rearm o' (w_context w)\<rparr>
           else w\<lparr>w_context := (rearm o' (w_context w))
                     \<lparr>c_operations := remove1 o' (c_operations (w_context w))\<rparr>,
                  w_operations := (w_operations w)
                     (o' := (w_operations w o')\<lparr>o_done := True, o_ref := o_ref (w_operations w o') - 1\<rparr>),
                  w_trace := w_trace w
                     @ (if o_callback (w_operations w o')
                        then [EV_drain_callback o' (rearm o' (w_context w))] else [])
                     @ [EV_operation_done o']\<rparr>)"
proof (cases "context_pending (w_context w)")
  case True
  with assms show ?thesis
    by (auto simp: set_dispatch_callbacks_def Let_def context_pending_def rearm_def
          pa_pstream_set_drain_callback_def pa_pdispatch_set_drain_callback_def
          pa_pstream_is_pending_def pa_pdispatch_is_pending_def
          pa_operation_ref_def pa_operation_unref_def)
next
  case False
  with assms show ?thesis
    by (simp add: set_dispatch_callbacks_def Let_def context_pending_def rearm_def
          pa_pstream_set_drain_callback_def pa_pdispatch_set_drain_callback_def
          pa_pstream_is_pending_def pa_pdispatch_is_pending_def
          pa_operation_done_def pa_operation_unref_def emit_def)
qed

lemma set_dispatch_callbacks_SomeD:
  assumes "set_dispatch_callbacks o' w = Some w'"
  shows "c_ref (w_context w) \<ge> 1 \<and> o_ref (w_operations w o') \<ge> 1
       \<and> c_state (w_context w) = PA_CONTEXT_READY
       \<and> (\<exists>p pd. c_pstream (w_context w) = Some p \<and> c_pdispatch (w_context w) = Some pd)"
  using assms
  by (auto simp: set_dispatch_callbacks_def split: if_splits option.splits)

lemma pa_context_drain_eq:
  assumes "c_ref (w_context w) \<ge> 1" and "c_state (w_context w) = PA_CONTEXT_READY"
    and "c_pstream (w_context w) = Some p" and "c_pdispatch (w_context w) = Some pd"
  shows "pa_context_drain w cb =
     Some (if \<not> context_pending (w_context w) then (None, w)
           else (Some (w_operation_alloc w),
                 w\<lparr>w_operations := (w_operations w)
                      (w_operation_alloc w := \<lparr>o_ref = 2, o_callback = cb, o_done = False\<rparr>),
                   w_operation_alloc := Suc (w_operation_alloc w),
                   w_context := (rearm (w_operation_alloc w) (w_context w))
                      \<lparr>c_operations := w_operation_alloc w # c_operations (w_context w)\<rparr>\<rparr>))"
proof (cases "context_pending (w_context w)")
  case False
  with assms show ?thesis
    by (simp add: pa_context_drain_def pa_context_is_pending_def context_pending_def)
next
  case True
  let ?o = "w_operation_alloc w"
  let ?w2 = "pa_operation_ref ?o
       (w\<lparr>w_operations := (w_operations w)(?o := \<lparr>o_ref = 1, o_callback = cb, o_done = False\<rparr>),
          w_operation_alloc := Suc ?o,
          w_context := (w_context w)\<lparr>c_operations := ?o # c_operations (w_context w)\<rparr>\<rparr>)"
  have pend: "pa_context_is_pending w = Some 1"
    using assms True by (auto simp: pa_context_is_pending_def context_pending_def)
  have w2: "context_pending (w_context ?w2)"
    using True by (simp add: pa_operation_ref_def context_pending_def)
  have "set_dispatch_callbacks ?o ?w2 = Some (?w2\<lparr>w_context := rearm ?o (w_context ?w2)\<rparr>)"
    using assms w2
    by (subst set_dispatch_callbacks_eq [where p = p and pd = pd])
       (simp_all add: pa_operation_ref_def)
  then show ?thesis
    using assms True pend
    by (simp add: pa_context_drain_def pa_operation_new_def Let_def pa_operation_ref_def rearm_def)
qed

lemma pa_context_drain_SomeD:
  assumes "pa_context_drain w cb = Some r"
  shows "c_ref (w_context w) \<ge> 1 \<and> c_state (w_context w) = PA_CONTEXT_READY
       \<and> (\<exists>p pd. c_pstream (w_context w) = Some p \<and> c_pdispatch (w_context w) = Some pd)"
  using assms
  by (auto simp: pa_context_drain_def pa_context_is_pending_def split: if_splits option.splits)

lemma drain_inv_rearm:
  assumes "drain_inv n0 o' w" and "drain_armed u (w_context w)"
  shows "drain_inv n0 o' (w\<lparr>w_context := rearm u (w_context w)\<rparr>)"
  using assms by (auto simp: drain_inv_def drain_armed_rearm)

lemma drain_inv_fire:
  assumes "drain_inv n0 o' w" and "drain_armed u (w_context w)"
    and "\<not> context_pending (w_context w)"
  shows "drain_inv n0 o'
     (w\<lparr>w_context := (rearm u (w_context w))\<lparr>c_operations := ops\<rparr>,
        w_operations := h,
        w_trace := w_trace w @ (if cb then [EV_drain_callback u (rearm u (w_context w))] else [])
            @ [EV_operation_done u]\<rparr>)"
proof -
  have armed: "\<not> drain_armed o' ((rearm u (w_context w))\<lparr>c_operations := ops\<rparr>)"
    using assms(3) drain_armed_rearm [of o' u "w_context w"]
    by (simp add: drain_armed_def)
  show ?thesis
  proof (cases "o' = u")
    case True
    with assms have "drain_fired o' (drop n0 (w_trace w)) = 0"
      by (simp add: drain_inv_def)
    with assms armed show ?thesis
      by (simp add: drain_inv_def drain_fired_def)
  next
    case False
    with assms armed show ?thesis
      by (simp add: drain_inv_def drain_fired_def)
  qed
qed

lemma drain_inv_notify:
  assumes "drain_inv n0 o' w" and "drain_armed u (w_context w)"
    and "set_dispatch_callbacks u w = Some w'"
  shows "drain_inv n0 o' w'"
proof -
  from set_dispatch_callbacks_SomeD [OF assms(3)]
  obtain p pd where pre: "c_ref (w_context w) \<ge> 1" "o_ref (w_operations w u) \<ge> 1"
      "c_state (w_context w) = PA_CONTEXT_READY"
      "c_pstream (w_context w) = Some p" "c_pdispatch (w_context w) = Some pd"
    by blast
  show ?thesis
  proof (cases "context_pending (w_context w)")
    case True
    with assms(3) have "w' = w\<lparr>w_context := rearm u (w_context w)\<rparr>"
      by (simp add: set_dispatch_callbacks_eq [OF pre])
    with assms show ?thesis
      by (simp add: drain_inv_rearm)
  next
    case False
    with assms(3) have "w' = w\<lparr>w_context := (rearm u (w_context w))
                     \<lparr>c_operations := remove1 u (c_operations (w_context w))\<rparr>,
                  w_operations := (w_operations w)
                     (u := (w_operations w u)\<lparr>o_done := True, o_ref := o_ref (w_operations w u) - 1\<rparr>),
                  w_trace := w_trace w
                     @ (if o_callback (w_operations w u)
                        then [EV_drain_callback u (rearm u (w_context w))] else [])
                     @ [EV_operation_done u]\<rparr>"
      by (simp add: set_dispatch_callbacks_eq [OF pre])
    then show ?thesis
      by (simp only: drain_inv_fire [OF assms(1,2) False])
  qed
qed

lemma drain_inv_drain:
  assumes "drain_inv n0 o' w" and "pa_context_drain w cb = Some (r, w')"
  shows "drain_inv n0 o' w'"
proof -
  from pa_context_drain_SomeD [OF assms(2)]
  obtain p pd where pre: "c_ref (w_context w) \<ge> 1" "c_state (w_context w) = PA_CONTEXT_READY"
      "c_pstream (w_context w) = Some p" "c_pdispatch (w_context w) = Some pd"
    by blast
  show ?thesis
  proof (cases "context_pending (w_context w)")
    case False
    with assms show ?thesis
      by (simp add: pa_context_drain_eq [OF pre])
  next
    case True
    have "\<not> drain_armed o' ((rearm (w_operation_alloc w) (w_context w))
            \<lparr>c_operations := w_operation_alloc w # c_operations (w_context w)\<rparr>)"
      using assms(1) drain_armed_rearm [of o' "w_operation_alloc w" "w_context w"]
      by (simp add: drain_armed_def drain_inv_def)
    with assms True show ?thesis
      by (auto simp: pa_context_drain_eq [OF pre] drain_inv_def)
  qed
qed

lemma drain_inv_step:
  assumes "drain_inv n0 o' w" and "drain_step a w = Some w'"
  shows "drain_inv n0 o' w'"
proof (cases a)
  case (Act_drain cb)
  with assms show ?thesis
    by (auto dest: drain_inv_drain)
next
  case (Act_progress rs q)
  with assms show ?thesis
    by (cases "c_pstream (w_context w)"; cases "c_pdispatch (w_context w)")
       (auto simp: drain_inv_def drain_armed_def)
next
  case Act_pdispatch_drained
  with assms show ?thesis
    by (auto simp: pdispatch_drain_callback_def drain_armed_def
          split: option.splits intro: drain_inv_notify)
next
  case Act_pstream_drained
  with assms show ?thesis
    by (auto simp: pstream_drain_callback_def drain_armed_def
          split: option.splits intro: drain_inv_notify)
qed

lemma drain_inv_steps:
  "drain_inv n0 o' w \<Longrightarrow> drain_steps as w = Some w' \<Longrightarrow> drain_inv n0 o' w'"
proof (induction as arbitrary: w)
  case Nil
  then show ?case by simp
next
  case (Cons a as)
  then show ?case
    by (auto simp: bind_eq_Some_conv dest: drain_inv_step)
qed

text \<open>
  C5, as amended. On a READY context with no outstanding work
  \<^verbatim>\<open>pa_context_drain\<close> returns NULL and changes nothing. With outstanding work it
  creates an operation that is tied to no request (nothing is sent, no tag is
  used, the trace is unchanged), arms the drained notification for it on the
  pending components and leaves it with two references, the caller's and the
  notification's. Each notification clears both notifications and checks both
  predicates again: if either holds it arms the notification again on the
  pending components and the operation keeps its reference count; if neither
  holds the completion callback (if set) fires and the operation finishes.
  Through any sequence of further drain calls, changes of the pending sets and
  notifications, the completion callback of the operation fires at most once,
  and every drain callback fires at a point where both predicates are false.
\<close>

theorem pa_context_drain_protocol:
  assumes "c_ref (w_context w) \<ge> 1" and "c_state (w_context w) = PA_CONTEXT_READY"
    and "c_pstream (w_context w) = Some p" and "c_pdispatch (w_context w) = Some pd"
  shows "(\<not> context_pending (w_context w) \<longrightarrow> pa_context_drain w cb = Some (None, w))
    \<and> (context_pending (w_context w) \<longrightarrow>
         pa_context_drain w cb =
           Some (Some (w_operation_alloc w),
                 w\<lparr>w_operations := (w_operations w)
                      (w_operation_alloc w := \<lparr>o_ref = 2, o_callback = cb, o_done = False\<rparr>),
                   w_operation_alloc := Suc (w_operation_alloc w),
                   w_context := (rearm (w_operation_alloc w) (w_context w))
                      \<lparr>c_operations := w_operation_alloc w # c_operations (w_context w)\<rparr>\<rparr>))
    \<and> (o_ref (w_operations w o') \<ge> 1 \<longrightarrow>
         set_dispatch_callbacks o' w =
           Some (if context_pending (w_context w)
                 then w\<lparr>w_context := rearm o' (w_context w)\<rparr>
                 else w\<lparr>w_context := (rearm o' (w_context w))
                           \<lparr>c_operations := remove1 o' (c_operations (w_context w))\<rparr>,
                        w_operations := (w_operations w)
                           (o' := (w_operations w o')
                              \<lparr>o_done := True, o_ref := o_ref (w_operations w o') - 1\<rparr>),
                        w_trace := w_trace w
                           @ (if o_callback (w_operations w o')
                              then [EV_drain_callback o' (rearm o' (w_context w))] else [])
                           @ [EV_operation_done o']\<rparr>))
    \<and> (\<forall>d w1 as w2. pa_context_drain w cb = Some (Some d, w1) \<longrightarrow> drain_steps as w1 = Some w2 \<longrightarrow>
           drain_fired d (drop (length (w_trace w)) (w_trace w2)) \<le> 1
           \<and> list_all quiet_drain_event (drop (length (w_trace w)) (w_trace w2)))"
proof (intro conjI impI allI)
  assume "\<not> context_pending (w_context w)"
  then show "pa_context_drain w cb = Some (None, w)"
    by (simp add: pa_context_drain_eq [OF assms])
next
  assume "context_pending (w_context w)"
  then show "pa_context_drain w cb =
           Some (Some (w_operation_alloc w),
                 w\<lparr>w_operations := (w_operations w)
                      (w_operation_alloc w := \<lparr>o_ref = 2, o_callback = cb, o_done = False\<rparr>),
                   w_operation_alloc := Suc (w_operation_alloc w),
                   w_context := (rearm (w_operation_alloc w) (w_context w))
                      \<lparr>c_operations := w_operation_alloc w # c_operations (w_context w)\<rparr>\<rparr>)"
    by (simp add: pa_context_drain_eq [OF assms])
next
  assume "o_ref (w_operations w o') \<ge> 1"
  then show "set_dispatch_callbacks o' w =
           Some (if context_pending (w_context w)
                 then w\<lparr>w_context := rearm o' (w_context w)\<rparr>
                 else w\<lparr>w_context := (rearm o' (w_context w))
                           \<lparr>c_operations := remove1 o' (c_operations (w_context w))\<rparr>,
                        w_operations := (w_operations w)
                           (o' := (w_operations w o')
                              \<lparr>o_done := True, o_ref := o_ref (w_operations w o') - 1\<rparr>),
                        w_trace := w_trace w
                           @ (if o_callback (w_operations w o')
                              then [EV_drain_callback o' (rearm o' (w_context w))] else [])
                           @ [EV_operation_done o']\<rparr>)"
    by (rule set_dispatch_callbacks_eq [OF assms(1) _ assms(2,3,4)])
next
  fix d w1 as w2
  assume drain: "pa_context_drain w cb = Some (Some d, w1)" and steps: "drain_steps as w1 = Some w2"
  have "drain_inv (length (w_trace w)) d w1"
    using drain
    by (auto simp: pa_context_drain_eq [OF assms] drain_inv_def drain_fired_def
          split: if_splits)
  from drain_inv_steps [OF this steps]
  show "drain_fired d (drop (length (w_trace w)) (w_trace w2)) \<le> 1"
    and "list_all quiet_drain_event (drop (length (w_trace w)) (w_trace w2))"
    by (simp_all add: drain_inv_def)
qed

lemma example_busy_drain:
  "pa_context_drain example_busy True =
     Some (Some 1, example_busy
        \<lparr>w_operations := (w_operations example_busy)(1 := \<lparr>o_ref = 2, o_callback = True, o_done = False\<rparr>),
         w_operation_alloc := 2,
         w_context := (rearm 1 (w_context example_busy))\<lparr>c_operations := [1, 0]\<rparr>\<rparr>)"
proof -
  have pre: "c_ref (w_context example_busy) \<ge> 1" "c_state (w_context example_busy) = PA_CONTEXT_READY"
    "c_pstream (w_context example_busy) = Some (the (c_pstream (w_context example_busy)))"
    "c_pdispatch (w_context example_busy) = Some (the (c_pdispatch (w_context example_busy)))"
    "context_pending (w_context example_busy)"
    "w_operation_alloc example_busy = 1" "c_operations (w_context example_busy) = [0]"
    by (simp_all add: example_busy_def example_ready_def world_new_def pa_context_new_def
          context_pending_def pa_pstream_is_pending_def pa_pstream_new_def)
  show ?thesis
    by (simp add: pa_context_drain_eq [OF pre(1-4)] pre(5-7))
qed

theorem pa_context_drain_protocol_witness:
  "c_ref (w_context example_busy) \<ge> 1 \<and> c_state (w_context example_busy) = PA_CONTEXT_READY
   \<and> context_pending (w_context example_busy) \<and> \<not> context_pending (w_context example_ready)
   \<and> pa_context_drain example_ready True = Some (None, example_ready)
   \<and> map_option fst (pa_context_drain example_busy True) = Some (Some 1)
   \<and> o_ref (w_operations example_busy 0) \<ge> 1
   \<and> set_dispatch_callbacks 0 example_busy
       = Some (example_busy\<lparr>w_context := rearm 0 (w_context example_busy)\<rparr>)
   \<and> drain_steps [Act_progress [] [], Act_pdispatch_drained]
        (snd (the (pa_context_drain example_busy True))) \<noteq> None
   \<and> drain_fired 1 (w_trace (the (drain_steps [Act_progress [] [], Act_pdispatch_drained]
        (snd (the (pa_context_drain example_busy True)))))) \<le> 1"
proof -
  have pre: "c_ref (w_context example_busy) \<ge> 1" "c_state (w_context example_busy) = PA_CONTEXT_READY"
    "c_pstream (w_context example_busy) = Some (the (c_pstream (w_context example_busy)))"
    "c_pdispatch (w_context example_busy) = Some (the (c_pdispatch (w_context example_busy)))"
    "context_pending (w_context example_busy)"
    "w_operation_alloc example_busy = 1" "w_trace example_busy = []"
    "o_ref (w_operations example_busy 0) \<ge> 1"
    by (simp_all add: example_busy_def example_ready_def world_new_def pa_context_new_def
          context_pending_def pa_pstream_is_pending_def pa_pstream_new_def)
  have pre': "c_ref (w_context example_ready) \<ge> 1" "c_state (w_context example_ready) = PA_CONTEXT_READY"
    "c_pstream (w_context example_ready) = Some (the (c_pstream (w_context example_ready)))"
    "c_pdispatch (w_context example_ready) = Some (the (c_pdispatch (w_context example_ready)))"
    "\<not> context_pending (w_context example_ready)"
    by (simp_all add: example_ready_def world_new_def pa_context_new_def
          context_pending_def pa_pstream_is_pending_def pa_pstream_new_def
          pa_pdispatch_is_pending_def pa_pdispatch_new_def)
  note busy = pa_context_drain_protocol [OF pre(1-4), of True 0]
  note ready = pa_context_drain_protocol [OF pre'(1-4), of True 0]
  have none: "pa_context_drain example_ready True = Some (None, example_ready)"
    using ready pre'(5) by blast
  have some: "map_option fst (pa_context_drain example_busy True) = Some (Some 1)"
    using busy pre(5,6) by simp
  have notify: "set_dispatch_callbacks 0 example_busy
       = Some (example_busy\<lparr>w_context := rearm 0 (w_context example_busy)\<rparr>)"
    using busy pre(5,8) by simp
  have run: "drain_steps [Act_progress [] [], Act_pdispatch_drained]
        (snd (the (pa_context_drain example_busy True))) \<noteq> None"
    unfolding example_busy_drain
    by (simp add: pdispatch_drain_callback_def set_dispatch_callbacks_def
          rearm_def example_busy_def example_ready_def world_new_def pa_context_new_def
          pa_pstream_new_def pa_pdispatch_new_def pa_pstream_is_pending_def
          pa_pdispatch_is_pending_def Let_def)
  then obtain w2 where w2: "drain_steps [Act_progress [] [], Act_pdispatch_drained]
        (snd (the (pa_context_drain example_busy True))) = Some w2"
    by blast
  have "pa_context_drain example_busy True
          = Some (Some 1, snd (the (pa_context_drain example_busy True)))"
    by (simp add: example_busy_drain)
  with busy w2 have "drain_fired 1 (drop (length (w_trace example_busy)) (w_trace w2)) \<le> 1"
    by blast
  then have fired: "drain_fired 1 (w_trace (the (drain_steps [Act_progress [] [], Act_pdispatch_drained]
        (snd (the (pa_context_drain example_busy True)))))) \<le> 1"
    unfolding w2 by (simp add: pre(7))
  from pre(1,2,5,8) pre'(5) none some notify run fired show ?thesis
    by blast
qed

text \<open>
  C5 as stated fails: "exactly once" does not hold. Two drain requests are
  issued while work is outstanding; the second arms both notifications for its
  own operation. The connection then drains and both components notify: the
  callback of the second operation fires once, the callback of the first never
  does, and no notification is left armed for it.
\<close>

theorem pa_context_drain_counterexample:
  "map_option (drain_fired 1 \<circ> w_trace)
     (drain_steps [Act_drain True, Act_drain True, Act_progress [] [], Act_pdispatch_drained,
        Act_pstream_drained] example_busy) = Some 0
   \<and> map_option (drain_fired 2 \<circ> w_trace)
     (drain_steps [Act_drain True, Act_drain True, Act_progress [] [], Act_pdispatch_drained,
        Act_pstream_drained] example_busy) = Some 1
   \<and> map_option (drain_armed 1 \<circ> w_context)
     (drain_steps [Act_drain True, Act_drain True, Act_progress [] [], Act_pdispatch_drained,
        Act_pstream_drained] example_busy) = Some False
   \<and> map_option (context_pending \<circ> w_context)
     (drain_steps [Act_drain True, Act_drain True, Act_progress [] [], Act_pdispatch_drained,
        Act_pstream_drained] example_busy) = Some False"
  by (simp add: pa_context_drain_def pa_context_is_pending_def pa_operation_new_def
        pa_operation_ref_def pa_operation_unref_def pa_operation_done_def emit_def
        pdispatch_drain_callback_def pstream_drain_callback_def set_dispatch_callbacks_def
        pa_pstream_set_drain_callback_def pa_pdispatch_set_drain_callback_def
        example_busy_def example_ready_def world_new_def pa_context_new_def
        pa_pstream_new_def pa_pdispatch_new_def pa_pstream_is_pending_def
        pa_pdispatch_is_pending_def Let_def drain_fired_def drain_armed_def context_pending_def)

subsection \<open>Correlation tags\<close>

lemma sent_tags_simps [simp]:
  "sent_tags [] = []"
  "sent_tags (xs @ ys) = sent_tags xs @ sent_tags ys"
  "sent_tags (e # xs) = tags_of_event e @ sent_tags xs"
  by (simp_all add: sent_tags_def)

lemma tags_from_simps [simp]:
  "tags_from c 0 = []"
  "tags_from c (Suc n) = tags_from c n @ [c + of_nat n]"
  by (simp_all add: tags_from_def)

lemma tags_from_add: "tags_from c (n + m) = tags_from c n @ tags_from (c + of_nat n) m"
  by (induction m) (simp_all add: add.assoc)

lemma tag_effect_refl [simp]: "tag_effect 0 w w"
  by (simp add: tag_effect_def)

lemma tag_effect_trans:
  assumes "tag_effect n w w1" and "tag_effect m w1 w2"
  shows "tag_effect (n + m) w w2"
proof -
  from assms obtain ev1 ev2 where
    ev1: "w_trace w1 = w_trace w @ ev1" "sent_tags ev1 = tags_from (c_ctag (w_context w)) n"
    and ev2: "w_trace w2 = w_trace w1 @ ev2" "sent_tags ev2 = tags_from (c_ctag (w_context w1)) m"
    by (auto simp: tag_effect_def)
  from assms have c1: "c_ctag (w_context w1) = c_ctag (w_context w) + of_nat n"
    and c2: "c_ctag (w_context w2) = c_ctag (w_context w1) + of_nat m"
    and s1: "subseq (pending_tags w1) (pending_tags w @ tags_from (c_ctag (w_context w)) n)"
    and s2: "subseq (pending_tags w2) (pending_tags w1 @ tags_from (c_ctag (w_context w1)) m)"
    by (simp_all add: tag_effect_def)
  have "subseq (pending_tags w1 @ tags_from (c_ctag (w_context w1)) m)
          ((pending_tags w @ tags_from (c_ctag (w_context w)) n) @ tags_from (c_ctag (w_context w1)) m)"
    by (rule list_emb_append_mono [OF s1 subseq_order.refl])
  with s2 have "subseq (pending_tags w2)
          ((pending_tags w @ tags_from (c_ctag (w_context w)) n) @ tags_from (c_ctag (w_context w1)) m)"
    by (rule subseq_order.trans)
  then have s: "subseq (pending_tags w2) (pending_tags w @ tags_from (c_ctag (w_context w)) (n + m))"
    by (simp add: tags_from_add c1)
  have "w_trace w2 = w_trace w @ (ev1 @ ev2)"
    "sent_tags (ev1 @ ev2) = tags_from (c_ctag (w_context w)) (n + m)"
    using ev1 ev2 by (simp_all add: tags_from_add c1)
  with s c1 c2 show ?thesis
    unfolding tag_effect_def by (intro conjI exI [of _ "ev1 @ ev2"]) (simp_all add: add.assoc)
qed

lemma tag_effect_0I:
  assumes "w_trace w' = w_trace w @ ev" and "sent_tags ev = []"
    and "c_ctag (w_context w') = c_ctag (w_context w)"
    and "subseq (pending_tags w') (pending_tags w)"
  shows "tag_effect 0 w w'"
  using assms by (simp add: tag_effect_def)

lemma tag_effect_0_trans:
  "tag_effect 0 w w1 \<Longrightarrow> tag_effect n w1 w2 \<Longrightarrow> tag_effect n w w2"
  using tag_effect_trans [of 0 w w1 n w2] by simp

lemma tag_effect_trans_0:
  "tag_effect n w w1 \<Longrightarrow> tag_effect 0 w1 w2 \<Longrightarrow> tag_effect n w w2"
  using tag_effect_trans [of n w w1 0 w2] by simp

lemma sent_tags_map_silent:
  "(\<And>x. tags_of_event (f x) = []) \<Longrightarrow> sent_tags (map f xs) = []"
  by (induction xs) simp_all

lemma sent_tags_teardown [simp]: "sent_tags (teardown_events st c) = []"
  by (simp add: teardown_events_def sent_tags_map_silent split: option.split)

lemma sent_tags_destroy [simp]: "sent_tags (destroy_events c) = []"
  by (simp add: destroy_events_def sent_tags_map_silent split: option.split)

lemma pa_context_ref_effect: "pa_context_ref w = Some w' \<Longrightarrow> tag_effect 0 w w'"
  by (auto simp: pa_context_ref_def tag_effect_def pending_tags_def split: if_splits)

lemma pa_context_unref_effect: "pa_context_unref w = Some w' \<Longrightarrow> tag_effect 0 w w'"
  by (auto simp: pa_context_unref_def Let_def context_free_eq tag_effect_def pending_tags_def
        split: if_splits)

lemma pa_context_set_state_effect:
  assumes "pa_context_set_state w st = Some w'"
  shows "tag_effect 0 w w'"
proof (cases "c_state (w_context w) = st")
  case True
  with assms show ?thesis
    by (simp add: pa_context_set_state_same)
next
  case False
  with assms have ref: "c_ref (w_context w) \<ge> 1"
    by (auto simp: pa_context_set_state_def pa_context_ref_def split: if_splits)
  show ?thesis
  proof (cases "st = PA_CONTEXT_FAILED \<or> st = PA_CONTEXT_TERMINATED")
    case True
    from assms show ?thesis
      unfolding pa_context_set_state_terminal [OF True False ref]
      by (auto simp: tag_effect_def pending_tags_def torn_down_def)
  next
    case False
    with assms \<open>c_state (w_context w) \<noteq> st\<close> ref show ?thesis
      by (auto simp: pa_context_set_state_live tag_effect_def pending_tags_def)
  qed
qed

lemma pa_context_fail_effect: "pa_context_fail w e = Some w' \<Longrightarrow> tag_effect 0 w w'"
  unfolding pa_context_fail_def
  by (drule pa_context_set_state_effect) (simp add: tag_effect_def pending_tags_def)

lemma pa_context_handle_error_effect:
  "pa_context_handle_error K w command t = Some (r, w') \<Longrightarrow> tag_effect 0 w w'"
  by (auto simp: pa_context_handle_error_def bind_eq_Some_conv tag_effect_def [of 0 w "w\<lparr>w_context := _\<rparr>"]
        pending_tags_def
        split: if_splits option.splits dest: pa_context_fail_effect)

lemma send_effect:
  assumes "pa_pstream_send_tagstruct (snd (next_ctag w)) t = Some w1"
    and "tag_of_message t = [c_ctag (w_context w)]"
  shows "tag_effect 1 w w1"
  using assms
  by (auto simp: pa_pstream_send_tagstruct_def next_ctag_def emit_def tag_effect_def
        pending_tags_def split: option.splits)

lemma register_effect:
  assumes "tag_effect 1 w w1" and "pa_pdispatch_register_reply w1 (c_ctag (w_context w)) to cb ud = Some w2"
    and "pending_tags w1 = pending_tags w"
  shows "tag_effect 1 w w2"
  using assms
  by (auto simp: pa_pdispatch_register_reply_def tag_effect_def pending_tags_def
        split: option.splits)

lemma send_pending:
  "pa_pstream_send_tagstruct (snd (next_ctag w)) t = Some w1 \<Longrightarrow> pending_tags w1 = pending_tags w"
  by (auto simp: pa_pstream_send_tagstruct_def next_ctag_def emit_def pending_tags_def
        split: option.splits)

lemma pa_context_exit_daemon_effect:
  assumes "pa_context_exit_daemon K w = Some w'"
  shows "tag_effect 1 w w'"
proof -
  from assms have "pa_pstream_send_tagstruct (snd (next_ctag w))
      [TAG_U32 (PA_COMMAND_EXIT K), TAG_U32 (c_ctag (w_context w))] = Some w'"
    by (simp add: pa_context_exit_daemon_def pa_tagstruct_putu32_def next_ctag_def Let_def
          split: if_splits)
  then show ?thesis
    by (rule send_effect) simp
qed

lemma pa_context_send_simple_command_effect:
  assumes "pa_context_send_simple_command K w command icb cb = Some (o', w')"
  shows "tag_effect 1 w w'"
proof -
  let ?w2 = "(snd (pa_operation_new w))\<lparr>w_operations := (w_operations (snd (pa_operation_new w)))
       (w_operation_alloc w := (w_operations (snd (pa_operation_new w)) (w_operation_alloc w))
          \<lparr>o_callback := cb\<rparr>)\<rparr>"
  have same: "w_trace ?w2 = w_trace w" "c_ctag (w_context ?w2) = c_ctag (w_context w)"
    "pending_tags ?w2 = pending_tags w"
    by (simp_all add: pa_operation_new_def Let_def pending_tags_def)
  from assms obtain w4 w5 where
    send: "pa_pstream_send_tagstruct (snd (next_ctag ?w2))
             [TAG_U32 command, TAG_U32 (c_ctag (w_context ?w2))] = Some w4"
    and reg: "pa_pdispatch_register_reply w4 (c_ctag (w_context ?w2)) (DEFAULT_TIMEOUT K) icb
                (Userdata_operation (w_operation_alloc w)) = Some w5"
    and w': "w' = pa_operation_ref (w_operation_alloc w) w5"
    by (auto simp: pa_context_send_simple_command_def pa_tagstruct_putu32_def next_ctag_def
          pa_operation_new_def Let_def bind_eq_Some_conv split: if_splits)
  have eff: "tag_effect 1 ?w2 w4"
    using send by (rule send_effect) simp
  have pend: "pending_tags w4 = pending_tags ?w2"
    using send by (rule send_pending)
  have "tag_effect 1 ?w2 w5"
    by (rule register_effect [OF eff reg pend])
  then show ?thesis
    using same by (simp add: tag_effect_def w' pa_operation_ref_def pending_tags_def)
qed

lemma on_connection_effect:
  assumes "on_connection K w io = Some w'"
  shows "tag_effect (if io then 1 else 0) w w'"
proof (cases io)
  case False
  let ?w3 = "\<lambda>w1. (emit EV_socket_client_unref w1)
       \<lparr>w_context := (w_context (emit EV_socket_client_unref w1))\<lparr>c_client := None\<rparr>\<rparr>"
  from assms False obtain w1 w4 where ref: "pa_context_ref w = Some w1"
    and fail: "pa_context_fail (?w3 w1) (PA_ERROR_CONNECTIONREFUSED K) = Some w4"
    and unref: "pa_context_unref w4 = Some w'"
    by (auto simp: on_connection_def Let_def bind_eq_Some_conv split: if_splits)
  have "tag_effect 0 w w1"
    using ref by (rule pa_context_ref_effect)
  moreover have "tag_effect 0 w1 (?w3 w1)"
    by (simp add: tag_effect_def emit_def pending_tags_def)
  moreover have "tag_effect 0 (?w3 w1) w4"
    using fail by (rule pa_context_fail_effect)
  moreover have "tag_effect 0 w4 w'"
    using unref by (rule pa_context_unref_effect)
  ultimately have "tag_effect 0 w w'"
    by (blast intro: tag_effect_0_trans)
  with False show ?thesis
    by simp
next
  case True
  let ?wa = "\<lambda>w1. w1\<lparr>w_trace := w_trace w1 @ [EV_socket_client_unref],
       w_context := (w_context w1)
          \<lparr>c_client := None,
           c_pstream := Some (pa_pstream_new\<lparr>ps_die_callback := True,
              ps_recieve_packet_callback := True, ps_recieve_memblock_callback := True\<rparr>),
           c_pdispatch := Some pa_pdispatch_new\<rparr>\<rparr>"
  from assms True obtain w1 wb wc w4 where ref: "pa_context_ref w = Some w1"
    and none: "c_pdispatch (w_context w1) = None"
    and send: "pa_pstream_send_tagstruct (snd (next_ctag (?wa w1)))
                   [TAG_U32 (PA_COMMAND_AUTH K), TAG_U32 (c_ctag (w_context w1)),
                    TAG_ARBITRARY (c_auth_cookie (w_context w1))] = Some wb"
    and reg: "pa_pdispatch_register_reply wb (c_ctag (w_context w1)) (DEFAULT_TIMEOUT K)
                            Setup_complete_callback Userdata_context = Some wc"
    and st: "pa_context_set_state wc PA_CONTEXT_AUTHORIZING = Some w4"
    and unref: "pa_context_unref w4 = Some w'"
    by (auto simp: on_connection_def Let_def bind_eq_Some_conv next_ctag_def emit_def
          pa_tagstruct_putu32_def pa_tagstruct_put_arbitrary_def split: if_splits)
  have e1: "tag_effect 0 w w1"
    using ref by (rule pa_context_ref_effect)
  have ea: "tag_effect 0 w1 (?wa w1)"
    using none by (simp add: tag_effect_def pending_tags_def pa_pdispatch_new_def)
  have eff: "tag_effect 1 (?wa w1) wb"
    using send by (rule send_effect) simp
  have pend: "pending_tags wb = pending_tags (?wa w1)"
    using send by (rule send_pending)
  have reg': "pa_pdispatch_register_reply wb (c_ctag (w_context (?wa w1))) (DEFAULT_TIMEOUT K)
                            Setup_complete_callback Userdata_context = Some wc"
    using reg by simp
  have "tag_effect 1 (?wa w1) wc"
    by (rule register_effect [OF eff reg' pend])
  with e1 ea have "tag_effect 1 w wc"
    by (blast intro: tag_effect_0_trans)
  moreover have "tag_effect 0 wc w4"
    using st by (rule pa_context_set_state_effect)
  ultimately have "tag_effect 1 w w4"
    by (rule tag_effect_trans_0)
  then have "tag_effect 1 w w'"
    using pa_context_unref_effect [OF unref] by (rule tag_effect_trans_0)
  with True show ?thesis
    by simp
qed

lemma setup_complete_callback_effect:
  assumes "setup_complete_callback K w command tag t = Some w'"
  shows "tag_effect (if command = PA_COMMAND_REPLY K \<and> c_state (w_context w) = PA_CONTEXT_AUTHORIZING
                     then 1 else 0) w w'"
proof -
  from assms obtain w1 where ref: "pa_context_ref w = Some w1"
    by (auto simp: setup_complete_callback_def bind_eq_Some_conv split: if_splits)
  then have e1: "tag_effect 0 w w1" and st1: "c_state (w_context w1) = c_state (w_context w)"
    by (auto simp: pa_context_ref_effect pa_context_ref_def split: if_splits)
  consider (error) "command \<noteq> PA_COMMAND_REPLY K"
    | (auth) "command = PA_COMMAND_REPLY K" "c_state (w_context w) = PA_CONTEXT_AUTHORIZING"
    | (name) "command = PA_COMMAND_REPLY K" "c_state (w_context w) = PA_CONTEXT_SETTING_NAME"
    using assms by (auto simp: setup_complete_callback_def split: if_splits)
  then show ?thesis
  proof cases
    case error
    with assms ref obtain r w2 where
      he: "pa_context_handle_error K w1 command t = Some (r, w2)"
      by (auto simp: setup_complete_callback_def bind_eq_Some_conv split: if_splits)
    have e2: "tag_effect 0 w1 w2"
      using he by (rule pa_context_handle_error_effect)
    have "tag_effect 0 w2 w'"
    proof (cases "r < 0")
      case True
      with assms ref error he obtain w3 where
        fail: "pa_context_fail w2 (PA_ERROR_PROTOCOL K) = Some w3"
        and unref: "pa_context_unref w3 = Some w'"
        by (auto simp: setup_complete_callback_def bind_eq_Some_conv split: if_splits)
      from pa_context_fail_effect [OF fail] pa_context_unref_effect [OF unref]
      show ?thesis
        by (rule tag_effect_0_trans)
    next
      case False
      with assms ref error he have "pa_context_unref w2 = Some w'"
        by (auto simp: setup_complete_callback_def bind_eq_Some_conv split: if_splits)
      then show ?thesis
        by (rule pa_context_unref_effect)
    qed
    with e1 e2 have "tag_effect 0 w w'"
      by (blast intro: tag_effect_0_trans)
    with error show ?thesis
      by simp
  next
    case auth
    with assms ref st1 obtain wb wc w4 where
      send: "pa_pstream_send_tagstruct (snd (next_ctag w1))
               [TAG_U32 (PA_COMMAND_SET_NAME K), TAG_U32 (c_ctag (w_context w1)),
                TAG_STRING (c_name (w_context w1))] = Some wb"
      and reg: "pa_pdispatch_register_reply wb (c_ctag (w_context w1)) (DEFAULT_TIMEOUT K)
                  Setup_complete_callback Userdata_context = Some wc"
      and st: "pa_context_set_state wc PA_CONTEXT_SETTING_NAME = Some w4"
      and unref: "pa_context_unref w4 = Some w'"
      by (auto simp: setup_complete_callback_def Let_def bind_eq_Some_conv next_ctag_def
            pa_tagstruct_putu32_def pa_tagstruct_puts_def split: if_splits)
    have eff: "tag_effect 1 w1 wb"
      using send by (rule send_effect) simp
    have "tag_effect 1 w1 wc"
      by (rule register_effect [OF eff reg send_pending [OF send]])
    with e1 have "tag_effect 1 w wc"
      by (rule tag_effect_0_trans)
    then have "tag_effect 1 w w4"
      using pa_context_set_state_effect [OF st] by (rule tag_effect_trans_0)
    then have "tag_effect 1 w w'"
      using pa_context_unref_effect [OF unref] by (rule tag_effect_trans_0)
    with auth show ?thesis
      by simp
  next
    case name
    with assms ref st1 obtain w4 where
      st: "pa_context_set_state w1 PA_CONTEXT_READY = Some w4"
      and unref: "pa_context_unref w4 = Some w'"
      by (auto simp: setup_complete_callback_def bind_eq_Some_conv split: if_splits)
    have "tag_effect 0 w1 w4"
      using st by (rule pa_context_set_state_effect)
    moreover have "tag_effect 0 w4 w'"
      using unref by (rule pa_context_unref_effect)
    ultimately have "tag_effect 0 w w'"
      using e1 by (blast intro: tag_effect_0_trans)
    with name show ?thesis
      by simp
  qed
qed

lemma pa_context_simple_ack_callback_effect:
  assumes "pa_context_simple_ack_callback K w command tag t o' = Some w'"
  shows "tag_effect 0 w w'"
proof -
  have fin: "tag_effect 0 v (pa_operation_unref o' (pa_operation_done o' v))" for v
    by (simp add: tag_effect_def pa_operation_unref_def pa_operation_done_def emit_def
          Let_def pending_tags_def)
  have cb: "tag_effect 0 v (simple_callback o' b v)" for v b
    by (simp add: tag_effect_def simple_callback_def emit_def pending_tags_def)
  from assms obtain w1 where w': "w' = pa_operation_unref o' (pa_operation_done o' w1)"
    and "tag_effect 0 w w1"
    by (auto simp: pa_context_simple_ack_callback_def bind_eq_Some_conv
          split: if_splits
          dest!: pa_context_handle_error_effect pa_context_fail_effect
          intro: tag_effect_0_trans cb)
  then show ?thesis
    using fin [of w1] by (auto intro: tag_effect_0_trans)
qed

lemma consume_effect:
  "tag_effect 0 w
     (w\<lparr>w_context := (w_context w)
          \<lparr>c_pdispatch := map_option
             (\<lambda>pd. pd\<lparr>pd_replies := take i (pd_replies pd) @ drop (Suc i) (pd_replies pd)\<rparr>)
             (c_pdispatch (w_context w))\<rparr>\<rparr>)"
proof -
  have "subseq (take i xs @ drop (Suc i) xs) xs" for xs :: "'a list"
  proof -
    have "drop (Suc i) xs = drop 1 (drop i xs)"
      by simp
    then have "subseq (drop (Suc i) xs) (drop i xs)"
      by (simp only: suffix_imp_subseq [OF suffix_drop])
    with subseq_order.refl have "subseq (take i xs @ drop (Suc i) xs) (take i xs @ drop i xs)"
      by (rule list_emb_append_mono)
    then show ?thesis by simp
  qed
  then show ?thesis
    by (cases "c_pdispatch (w_context w)")
       (simp_all add: tag_effect_def pending_tags_def subseq_map flip: take_map drop_map)
qed

lemma lifetime_step_effect:
  assumes "lifetime_step K a w = Some w'"
  shows "\<exists>n\<le>1. tag_effect n w w'"
proof (cases a)
  case (Act_on_connection io)
  with assms have "tag_effect (if io then 1 else 0) w w'"
    by (simp add: on_connection_effect)
  then show ?thesis
    by (cases io) auto
next
  case (Act_setup_complete command tag t)
  with assms have "tag_effect (if command = PA_COMMAND_REPLY K
      \<and> c_state (w_context w) = PA_CONTEXT_AUTHORIZING then 1 else 0) w w'"
    by (simp add: setup_complete_callback_effect)
  then show ?thesis
    by (auto split: if_splits)
next
  case Act_exit_daemon
  with assms have "pa_context_exit_daemon K w = Some w'"
    by simp
  then have "tag_effect 1 w w'"
    by (rule pa_context_exit_daemon_effect)
  then show ?thesis by auto
next
  case (Act_send_simple_command command cb)
  with assms obtain o' where "pa_context_send_simple_command K w command cb True = Some (o', w')"
    by auto
  then have "tag_effect 1 w w'"
    by (rule pa_context_send_simple_command_effect)
  then show ?thesis by auto
next
  case (Act_simple_ack command tag t o')
  with assms have "tag_effect 0 w w'"
    by (simp add: pa_context_simple_ack_callback_effect)
  then show ?thesis by auto
next
  case (Act_consume i)
  with assms consume_effect [of w i] show ?thesis
    by auto
next
  case Act_die
  with assms have "tag_effect 0 w w'"
    by (simp add: pstream_die_callback_def pa_context_fail_effect)
  then show ?thesis by auto
next
  case Act_disconnect
  with assms have "tag_effect 0 w w'"
    by (simp add: pa_context_disconnect_def pa_context_set_state_effect)
  then show ?thesis by auto
qed

lemma lifetime_effect:
  "lifetime K as w = Some w' \<Longrightarrow> \<exists>n\<le>length as. tag_effect n w w'"
proof (induction as arbitrary: w)
  case Nil
  then show ?case by simp
next
  case (Cons a as)
  then obtain w1 where step: "lifetime_step K a w = Some w1" and rest: "lifetime K as w1 = Some w'"
    by (auto simp: bind_eq_Some_conv)
  from lifetime_step_effect [OF step] obtain n where n: "n \<le> 1" "tag_effect n w w1"
    by blast
  from Cons.IH [OF rest] obtain m where m: "m \<le> length as" "tag_effect m w1 w'"
    by blast
  from n(2) m(2) have "tag_effect (n + m) w w'"
    by (rule tag_effect_trans)
  with n(1) m(1) show ?case
    by (intro exI [of _ "n + m"]) simp
qed

lemma subseq_distinct: "subseq xs ys \<Longrightarrow> distinct ys \<Longrightarrow> distinct xs"
proof (induction rule: list_emb.induct)
  case (list_emb_Nil ys)
  show ?case by simp
next
  case (list_emb_Cons xs ys y)
  then show ?case by simp
next
  case (list_emb_Cons2 x y xs ys)
  then have "x \<notin> set xs"
    by (auto elim: list_emb_set)
  with list_emb_Cons2 show ?case by simp
qed

lemma of_nat_word32_inj:
  assumes "(of_nat i :: uint32_t) = of_nat j" and "i < 2 ^ 32" and "j < 2 ^ 32"
  shows "i = j"
  using assms by (simp add: word_of_nat_eq_iff take_bit_nat_eq_self)

lemma distinct_tags_from: "n \<le> 2 ^ 32 \<Longrightarrow> distinct (tags_from c n)"
  unfolding tags_from_def
  by (auto simp: distinct_map inj_on_def dest!: of_nat_word32_inj)


lemma send_simple_pending:
  assumes "c_pstream (w_context w) \<noteq> None" and "c_pdispatch (w_context w) \<noteq> None"
  shows "\<exists>w1. lifetime_step K (Act_send_simple_command cmd icb) w = Some w1
    \<and> pending_tags w1 = pending_tags w @ [c_ctag (w_context w)]
    \<and> c_ctag (w_context w1) = c_ctag (w_context w) + 1
    \<and> c_pstream (w_context w1) \<noteq> None \<and> c_pdispatch (w_context w1) \<noteq> None"
  using assms
  by (auto simp: pa_context_send_simple_command_def pa_operation_new_def Let_def next_ctag_def
        pa_pstream_send_tagstruct_def pa_pdispatch_register_reply_def emit_def
        pa_operation_ref_def pending_tags_def pa_tagstruct_putu32_def)

lemma tags_from_Suc': "tags_from c (Suc n) = c # tags_from (c + 1) n"
  using tags_from_add [of c 1 n] by simp

lemma simple_commands_pending:
  assumes "c_pstream (w_context w) \<noteq> None" and "c_pdispatch (w_context w) \<noteq> None"
  shows "\<exists>w'. lifetime K (replicate n (Act_send_simple_command cmd icb)) w = Some w'
    \<and> pending_tags w' = pending_tags w @ tags_from (c_ctag (w_context w)) n"
  using assms
proof (induction n arbitrary: w)
  case 0
  then show ?case by simp
next
  case (Suc n)
  from send_simple_pending [OF Suc.prems, of K cmd icb] obtain w1 where
    step: "lifetime_step K (Act_send_simple_command cmd icb) w = Some w1"
    and w1: "pending_tags w1 = pending_tags w @ [c_ctag (w_context w)]"
      "c_ctag (w_context w1) = c_ctag (w_context w) + 1"
      "c_pstream (w_context w1) \<noteq> None" "c_pdispatch (w_context w1) \<noteq> None"
    by blast
  from Suc.IH [OF w1(3,4)] obtain w' where
    "lifetime K (replicate n (Act_send_simple_command cmd icb)) w1 = Some w'"
    "pending_tags w' = pending_tags w1 @ tags_from (c_ctag (w_context w1)) n"
    by blast
  with step w1(1,2) show ?case
    by (simp add: tags_from_Suc' del: tags_from_simps lifetime_step.simps)
qed

lemma tags_from_wrap: "\<not> distinct (tags_from c (2 ^ 32 + 1))"
proof -
  have "tags_from c (2 ^ 32 + 1) = tags_from c (2 ^ 32) @ tags_from (c + of_nat (2 ^ 32)) 1"
    by (rule tags_from_add)
  moreover have "tags_from (c + of_nat (2 ^ 32)) 1 = [c]"
    by (simp add: tags_from_def)
  moreover have "c \<in> set (tags_from c (2 ^ 32))"
  proof -
    have "(\<lambda>i. c + of_nat i) 0 \<in> (\<lambda>i. c + of_nat i) ` set [0..<2 ^ 32]"
      by (rule imageI) simp
    then show ?thesis
      by (simp add: tags_from_def)
  qed
  ultimately show ?thesis
    by (simp only: distinct_append) simp
qed


lemma example_on_connection:
  "on_connection example_constants example_connecting True \<noteq> None"
  by (simp add: on_connection_def pa_context_ref_def pa_context_unref_def Let_def next_ctag_def
        pa_pstream_send_tagstruct_def pa_pdispatch_register_reply_def emit_def
        pa_context_set_state_live example_connecting_def world_new_def pa_context_new_def)

lemma example_lifetime_runs:
  "lifetime example_constants example_lifetime example_connecting \<noteq> None"
  by (simp add: example_lifetime_def on_connection_def setup_complete_callback_def
        pa_context_exit_daemon_def pa_context_send_simple_command_def pa_operation_new_def
        pa_operation_ref_def pa_context_ref_def pa_context_unref_def Let_def next_ctag_def
        pa_pstream_send_tagstruct_def pa_pdispatch_register_reply_def emit_def
        pa_context_set_state_live example_connecting_def world_new_def pa_context_new_def
        example_constants_def pa_pstream_new_def pa_pdispatch_new_def)

lemma example_requests:
  "pa_context_exit_daemon example_constants example_ready \<noteq> None"
  "pa_context_send_simple_command example_constants example_ready 7 Simple_ack_callback True \<noteq> None"
  "setup_complete_callback example_constants example_authorizing 2 2 [] \<noteq> None"
  "c_state (w_context example_authorizing) = PA_CONTEXT_AUTHORIZING"
  by (simp_all add: pa_context_exit_daemon_def pa_context_send_simple_command_def
        setup_complete_callback_def pa_operation_new_def
        pa_operation_ref_def pa_context_ref_def pa_context_unref_def Let_def next_ctag_def
        pa_pstream_send_tagstruct_def pa_pdispatch_register_reply_def emit_def
        pa_context_set_state_live example_authorizing_def example_busy_def example_ready_def
        world_new_def pa_context_new_def
        example_constants_def pa_pstream_new_def pa_pdispatch_new_def)


end
